theory Spec2Isabelle
  imports Complex_Main
begin

section \<open>FIPA-ACL messages (communication/fipa_message.py)\<close>

text \<open>
  Python raises; the model returns the exception as a value.
\<close>

datatype py_error = IndexError | KeyError | AttributeError | TypeError | ValueError | ZeroDivisionError

text \<open>
  A message content is a Python dict with string keys. The values the agents read are
  numbers, strings, positions and (for the queue lengths in a neighbour's state) dicts
  of numbers; dict order is insertion order, so the content is an association list read
  with \<open>map_of\<close>.
\<close>

datatype cval = Num real | Str string | Pos real real | Dict "(string \<times> real) list" | NoneVal

type_synonym content = "(string \<times> cval) list"

record FIPAMessage =
  sender :: string
  receiver :: string
  performative :: string
  content :: content
  language :: string
  ontology :: "string option"
  protocol :: "string option"
  conversation_id :: "string option"
  reply_to :: "string option"
  reply_by :: "real option"
  timestamp :: real
  message_id :: string

text \<open>The values of the enum \<open>Performative\<close>, in declaration order.\<close>

definition Performative_values :: "string list" where
  "Performative_values =
     [''inform'', ''query-if'', ''query-ref'',
      ''propose'', ''accept-proposal'', ''reject-proposal'',
      ''request'', ''agree'', ''refuse'',
      ''failure'', ''confirm'', ''disconfirm'',
      ''not-understood'', ''cancel'',
      ''inform-congestion'', ''request-route'', ''coordinate'']"

text \<open>\<open>str.lower()\<close> on the ASCII range: \<open>A..Z\<close> become \<open>a..z\<close>.\<close>

definition lower_char :: "char \<Rightarrow> char" where
  "lower_char c =
     (case map_of (zip ''ABCDEFGHIJKLMNOPQRSTUVWXYZ'' ''abcdefghijklmnopqrstuvwxyz'') c of
        Some d \<Rightarrow> d
      | None \<Rightarrow> c)"

definition lower :: "string \<Rightarrow> string" where
  "lower s = map lower_char s"

text \<open>
  \<open>__post_init__\<close>: a performative whose lower-case form is a value of the enum is
  replaced by that value; any other string is kept (the \<open>ValueError\<close> is swallowed).
\<close>

definition post_init :: "FIPAMessage \<Rightarrow> FIPAMessage" where
  "post_init m =
     (if lower (performative m) \<in> set Performative_values
      then m\<lparr>performative := lower (performative m)\<rparr>
      else m)"

text \<open>
  The dataclass constructor. The two fields with a default factory (\<open>timestamp\<close> and
  \<open>message_id\<close>) read the wall clock; the values read are arguments here.
\<close>

definition FIPAMessage_new ::
  "string \<Rightarrow> string \<Rightarrow> string \<Rightarrow> content \<Rightarrow> string option \<Rightarrow> string option \<Rightarrow>
   string option \<Rightarrow> string option \<Rightarrow> real \<Rightarrow> string \<Rightarrow> FIPAMessage" where
  "FIPAMessage_new sndr rcvr perf cont onto proto conv rto ts mid =
     post_init \<lparr>sender = sndr, receiver = rcvr, performative = perf, content = cont,
                language = ''JSON'', ontology = onto, protocol = proto,
                conversation_id = conv, reply_to = rto, reply_by = None,
                timestamp = ts, message_id = mid\<rparr>"

text \<open>
  \<open>create_reply\<close> is a method: the result pairs the receiver object after the call
  (no field of \<open>self\<close> is assigned) with the message returned.
\<close>

definition create_reply ::
  "FIPAMessage \<Rightarrow> string \<Rightarrow> content \<Rightarrow> real \<Rightarrow> string \<Rightarrow> FIPAMessage \<times> FIPAMessage" where
  "create_reply self perf cont ts mid =
     (self,
      FIPAMessage_new (receiver self) (sender self) perf cont
        (ontology self) (protocol self) (conversation_id self) (Some (message_id self))
        ts mid)"

subsection \<open>MessageQueue\<close>

record MessageQueue =
  inbox :: "FIPAMessage list"
  outbox :: "FIPAMessage list"
  max_size :: int
  message_count :: nat

definition MessageQueue_init :: "int \<Rightarrow> MessageQueue" where
  "MessageQueue_init n = \<lparr>inbox = [], outbox = [], max_size = n, message_count = 0\<rparr>"

text \<open>\<open>list.pop(0)\<close> raises \<open>IndexError\<close> on an empty list.\<close>

definition add_to_inbox :: "MessageQueue \<Rightarrow> FIPAMessage \<Rightarrow> py_error + MessageQueue" where
  "add_to_inbox q m =
     (if int (length (inbox q)) < max_size q
      then Inr (q\<lparr>inbox := inbox q @ [m]\<rparr>)
      else (case inbox q of
              [] \<Rightarrow> Inl IndexError
            | _ # rest \<Rightarrow> Inr (q\<lparr>inbox := rest @ [m]\<rparr>)))"

text \<open>A sequence of \<open>add_to_inbox\<close> calls; the first exception ends it.\<close>

fun add_all_to_inbox :: "MessageQueue \<Rightarrow> FIPAMessage list \<Rightarrow> py_error + MessageQueue" where
  "add_all_to_inbox q [] = Inr q"
| "add_all_to_inbox q (m # ms) =
     (case add_to_inbox q m of Inl e \<Rightarrow> Inl e | Inr q' \<Rightarrow> add_all_to_inbox q' ms)"

section \<open>Road network and A* heuristic (algorithms/routing.py)\<close>

type_synonym position = "real \<times> real"

record Node =
  node_position :: position
  node_id :: string
  neighbors :: "string \<rightharpoonup> real"

text \<open>
  \<open>graph\<close> is the networkx mirror of the edges, kept as its edge-weight table; an
  undirected edge is stored under both orientations. \<open>temporary_blockages\<close> is the
  attribute \<open>_temporary_blockages\<close>, which does not exist (\<open>None\<close>) before the first
  call of \<open>add_temporary_blockage\<close>.
\<close>

record RoadNetwork =
  nodes :: "string \<rightharpoonup> Node"
  graph :: "(string \<times> string) \<rightharpoonup> real"
  temporary_blockages :: "(string \<times> string \<times> real) list option"

definition euclidean_distance :: "position \<Rightarrow> position \<Rightarrow> real" where
  "euclidean_distance pos1 pos2 =
     sqrt ((fst pos1 - fst pos2)\<^sup>2 + (snd pos1 - snd pos2)\<^sup>2)"

definition add_neighbor :: "Node \<Rightarrow> string \<Rightarrow> real \<Rightarrow> Node" where
  "add_neighbor n neighbor_id distance = n\<lparr>neighbors := (neighbors n)(neighbor_id \<mapsto> distance)\<rparr>"

text \<open>
  \<open>add_edge\<close>: both end points must be nodes of the network; without a weight the
  Euclidean distance of the two positions is taken. The two \<open>add_neighbor\<close> calls run
  one after the other (they meet on the same node when both ids are equal).
\<close>

definition add_edge :: "RoadNetwork \<Rightarrow> string \<Rightarrow> string \<Rightarrow> real option \<Rightarrow> bool \<times> RoadNetwork" where
  "add_edge net node1_id node2_id weight =
     (case (nodes net node1_id, nodes net node2_id) of
        (Some n1, Some n2) \<Rightarrow>
          (let w = (case weight of
                      None \<Rightarrow> euclidean_distance (node_position n1) (node_position n2)
                    | Some w0 \<Rightarrow> w0);
               nodes1 = (nodes net)(node1_id \<mapsto> add_neighbor n1 node2_id w);
               nodes2 = (case nodes1 node2_id of
                           Some m2 \<Rightarrow> nodes1(node2_id \<mapsto> add_neighbor m2 node1_id w)
                         | None \<Rightarrow> nodes1)
           in (True, net\<lparr>nodes := nodes2,
                          graph := (graph net)((node1_id, node2_id) \<mapsto> w,
                                               (node2_id, node1_id) \<mapsto> w)\<rparr>))
      | _ \<Rightarrow> (False, net))"

definition remove_edge :: "RoadNetwork \<Rightarrow> string \<Rightarrow> string \<Rightarrow> RoadNetwork" where
  "remove_edge net node1_id node2_id =
     (case (nodes net node1_id, nodes net node2_id) of
        (Some n1, Some n2) \<Rightarrow>
          (let nodes1 = (nodes net)(node1_id \<mapsto> n1\<lparr>neighbors := (neighbors n1)(node2_id := None)\<rparr>);
               nodes2 = (case nodes1 node2_id of
                           Some m2 \<Rightarrow>
                             nodes1(node2_id \<mapsto> m2\<lparr>neighbors := (neighbors m2)(node1_id := None)\<rparr>)
                         | None \<Rightarrow> nodes1)
           in net\<lparr>nodes := nodes2,
                   graph := (graph net)((node1_id, node2_id) := None,
                                        (node2_id, node1_id) := None)\<rparr>)
      | _ \<Rightarrow> net)"

definition add_temporary_blockage :: "RoadNetwork \<Rightarrow> string \<Rightarrow> string \<Rightarrow> real \<Rightarrow> RoadNetwork" where
  "add_temporary_blockage net node1_id node2_id duration =
     (let blockages = (case temporary_blockages net of None \<Rightarrow> [] | Some bs \<Rightarrow> bs);
          net1 = remove_edge net node1_id node2_id
      in net1\<lparr>temporary_blockages := Some (blockages @ [(node1_id, node2_id, duration)])\<rparr>)"

text \<open>
  The loop of \<open>restore_expired_blockages\<close>: an expired entry is re-added with
  \<open>add_edge(node1_id, node2_id)\<close>, that is without a weight; the others are collected
  in \<open>still_blocked\<close>.
\<close>

fun restore_loop ::
  "RoadNetwork \<Rightarrow> real \<Rightarrow> (string \<times> string \<times> real) list \<Rightarrow>
   RoadNetwork \<times> (string \<times> string \<times> real) list" where
  "restore_loop net current_time [] = (net, [])"
| "restore_loop net current_time ((node1_id, node2_id, expiry) # rest) =
     (if current_time \<ge> expiry
      then restore_loop (snd (add_edge net node1_id node2_id None)) current_time rest
      else (case restore_loop net current_time rest of
              (net', still_blocked) \<Rightarrow> (net', (node1_id, node2_id, expiry) # still_blocked)))"

definition restore_expired_blockages :: "RoadNetwork \<Rightarrow> real \<Rightarrow> RoadNetwork" where
  "restore_expired_blockages net current_time =
     (case temporary_blockages net of
        None \<Rightarrow> net
      | Some bs \<Rightarrow>
          (case restore_loop net current_time bs of
             (net', still_blocked) \<Rightarrow> net'\<lparr>temporary_blockages := Some still_blocked\<rparr>))"

text \<open>The weight the routers read for the edge from \<open>a\<close> to \<open>b\<close>.\<close>

definition edge_weight :: "RoadNetwork \<Rightarrow> string \<Rightarrow> string \<Rightarrow> real option" where
  "edge_weight net a b = (case nodes net a of None \<Rightarrow> None | Some n \<Rightarrow> neighbors n b)"

text \<open>
  The heuristic of \<open>AStarRouter._a_star\<close> for the goal \<open>end_id\<close>. The factor starts at
  1.3; the \<open>if\<close>/\<open>elif\<close> chain tests \<open>> 5000\<close> first and \<open>> 10000\<close> second, as in the
  source. A node id that is not in the network raises \<open>KeyError\<close>.
\<close>

definition osm_correction_factor :: "real \<Rightarrow> real" where
  "osm_correction_factor euclidean_dist =
     (if euclidean_dist > 5000 then 1.15
      else if euclidean_dist > 10000 then 1.1
      else 1.3)"

definition heuristic :: "RoadNetwork \<Rightarrow> string \<Rightarrow> string \<Rightarrow> py_error + real" where
  "heuristic net end_id nid =
     (case nodes net nid of
        None \<Rightarrow> Inl KeyError
      | Some n \<Rightarrow>
          (case nodes net end_id of
             None \<Rightarrow> Inl KeyError
           | Some e \<Rightarrow>
               (let euclidean_dist = euclidean_distance (node_position n) (node_position e)
                in Inr (euclidean_dist * osm_correction_factor euclidean_dist))))"

section \<open>BDI beliefs (agents/bdi_agent.py)\<close>

datatype BeliefType = POSITION | TRAFFIC_STATE | ROUTE | NEIGHBORS | CONGESTION | SPEED | DESTINATION

datatype belief_value =
  BStr string | BDict content | BRoute "position list" | BPos position | BNum real

record Belief =
  b_type :: BeliefType
  b_value :: belief_value
  b_confidence :: real
  b_timestamp :: real
  b_source :: string

type_synonym beliefs = "BeliefType \<rightharpoonup> Belief"

definition update_belief ::
  "beliefs \<Rightarrow> real \<Rightarrow> BeliefType \<Rightarrow> belief_value \<Rightarrow> string \<Rightarrow> beliefs" where
  "update_belief bs current_time belief_type val source =
     bs(belief_type \<mapsto> \<lparr>b_type = belief_type, b_value = val, b_confidence = 1,
                          b_timestamp = current_time, b_source = source\<rparr>)"

definition get_belief :: "beliefs \<Rightarrow> BeliefType \<Rightarrow> belief_value option" where
  "get_belief bs belief_type = map_option b_value (bs belief_type)"

section \<open>Vehicle agent (agents/vehicle_agent.py)\<close>

record RerouteEntry =
  re_time :: real
  re_reason :: string
  re_congestion_level :: real
  re_old_route_length :: int
  re_new_route_length :: int
  re_position :: position
  re_vehicle_type :: string

text \<open>
  The attributes of a vehicle that rerouting and message handling read or write.
  \<open>last_message_type\<close> and \<open>reroute_history\<close> are created on first use (\<open>None\<close> while
  missing). \<open>route_attr\<close> is the attribute \<open>self.route\<close> that \<open>handle_message\<close> reads:
  neither \<open>VehicleAgent.__init__\<close> nor \<open>BDIAgent.__init__\<close> creates it, so it is \<open>None\<close>
  (reading it raises \<open>AttributeError\<close>) unless it was set from outside.
\<close>

record Vehicle =
  unique_id :: string
  vehicle_type :: string
  veh_position :: position
  destination :: position
  current_route :: "position list"
  current_waypoint_index :: int
  route_recalculation_timer :: real
  route_recalculation_interval :: real
  active :: bool
  route_changes :: int
  current_time :: real
  veh_beliefs :: beliefs
  last_message_type :: "cval option"
  reroute_history :: "RerouteEntry list option"
  route_attr :: "position list option"

text \<open>
  The scheduler's router, \<open>model.calculate_route\<close>: \<open>None\<close> when the model has no such
  method, else a function that returns a route or \<open>None\<close>.
\<close>

type_synonym router = "(position \<Rightarrow> position \<Rightarrow> position list option) option"

definition traffic_congestion_level :: "Vehicle \<Rightarrow> cval" where
  "traffic_congestion_level v =
     (case get_belief (veh_beliefs v) TRAFFIC_STATE of
        Some (BDict d) \<Rightarrow> (case map_of d ''congestion_level'' of Some x \<Rightarrow> x | None \<Rightarrow> Num 0)
      | _ \<Rightarrow> Num 0)"

definition reroute_reason :: "Vehicle \<Rightarrow> real \<Rightarrow> string" where
  "reroute_reason v congestion_level =
     (if congestion_level > 0.7 then ''high_congestion''
      else (case last_message_type v of
              None \<Rightarrow> ''periodic_check''
            | Some t \<Rightarrow>
                if t = Str ''congestion'' then ''congestion_alert''
                else if t = Str ''incident'' then ''incident_alert''
                else ''periodic_check''))"

text \<open>
  \<open>_recalculate_route\<close>. Comparing a congestion level that is not a number with 0.7
  raises \<open>TypeError\<close>. A route is accepted when it is truthy: neither \<open>None\<close> nor empty.
\<close>

definition recalculate_route :: "router \<Rightarrow> Vehicle \<Rightarrow> py_error + (bool \<times> Vehicle)" where
  "recalculate_route calculate_route v =
     (case traffic_congestion_level v of
        Num congestion_level \<Rightarrow>
          (let reason = reroute_reason v congestion_level;
               old_route_length =
                 (if current_route v \<noteq> []
                  then int (length (current_route v)) - current_waypoint_index v else 0)
           in case calculate_route of
                None \<Rightarrow> Inr (False, v)
              | Some calc \<Rightarrow>
                  (case calc (veh_position v) (destination v) of
                     None \<Rightarrow> Inr (False, v)
                   | Some new_route \<Rightarrow>
                       if new_route = [] then Inr (False, v)
                       else Inr (True,
                         v\<lparr>current_route := new_route,
                           current_waypoint_index := 0,
                           route_changes := route_changes v + 1,
                           veh_beliefs :=
                             update_belief (veh_beliefs v) (current_time v) ROUTE
                               (BRoute new_route) ''self'',
                           reroute_history :=
                             Some ((case reroute_history v of None \<Rightarrow> [] | Some h \<Rightarrow> h) @
                               [\<lparr>re_time = current_time v, re_reason = reason,
                                 re_congestion_level = congestion_level,
                                 re_old_route_length = old_route_length,
                                 re_new_route_length = int (length new_route),
                                 re_position = veh_position v,
                                 re_vehicle_type = vehicle_type v\<rparr>])\<rparr>)))
      | _ \<Rightarrow> Inl TypeError)"

text \<open>
  The \<open>CHANGE_ROUTE\<close> branch of \<open>execute_intention\<close>: the result of
  \<open>_recalculate_route\<close>, and \<open>False\<close> when it raised (the \<open>try\<close> block catches every
  exception; \<open>_recalculate_route\<close> assigns nothing before it can raise).
\<close>

definition execute_intention_CHANGE_ROUTE :: "router \<Rightarrow> Vehicle \<Rightarrow> bool \<times> Vehicle" where
  "execute_intention_CHANGE_ROUTE calculate_route v =
     (case recalculate_route calculate_route v of
        Inl e \<Rightarrow> (False, v)
      | Inr r \<Rightarrow> r)"

text \<open>
  \<open>VehicleAgent.handle_message\<close>. The performative is compared with the upper-case
  string \<open>INFORM\<close>; the content is tested for the key \<open>congestion\<close>; the level is
  compared with \<open>> 0.7\<close>. The debug log formats the level with \<open>:.2f\<close>, which raises
  \<open>ValueError\<close> for a string and \<open>TypeError\<close> for any other value that is not a number. An immediate reroute needs \<open>self.active\<close> and a non-empty \<open>self.route\<close>.
\<close>

definition dict_get :: "content \<Rightarrow> string \<Rightarrow> cval \<Rightarrow> cval" where
  "dict_get d k dflt = (case map_of d k of Some x \<Rightarrow> x | None \<Rightarrow> dflt)"

definition vehicle_handle_message ::
  "router \<Rightarrow> Vehicle \<Rightarrow> FIPAMessage \<Rightarrow> py_error + Vehicle" where
  "vehicle_handle_message calculate_route v message =
     (if performative message = ''INFORM'' then
        (if ''congestion'' \<in> fst ` set (content message) then
           (let congestion_level = dict_get (content message) ''congestion_level'' (Num 0);
                location = dict_get (content message) ''location'' NoneVal;
                reason = dict_get (content message) ''reason'' (Str '''');
                msg_type = dict_get (content message) ''type'' (Str ''congestion'')
            in case congestion_level of
                 Num lvl \<Rightarrow>
                   (let v1 = v\<lparr>last_message_type := Some msg_type,
                               veh_beliefs :=
                                 update_belief (veh_beliefs v) (current_time v) CONGESTION
                                   (BDict [(''level'', congestion_level), (''location'', location),
                                           (''reason'', reason)])
                                   (sender message)\<rparr>
                    in if lvl > 0.7 \<or> reason = Str ''incident'' then
                         (if active v1 then
                            (case route_attr v1 of
                               None \<Rightarrow> Inl AttributeError
                             | Some r \<Rightarrow>
                                 if r \<noteq> [] then
                                   (case recalculate_route calculate_route v1 of
                                      Inl e \<Rightarrow> Inl e
                                    | Inr (ok, v2) \<Rightarrow> Inr v2)
                                 else Inr (v1\<lparr>route_recalculation_timer :=
                                               route_recalculation_interval v1\<rparr>))
                          else Inr (v1\<lparr>route_recalculation_timer :=
                                        route_recalculation_interval v1\<rparr>))
                       else Inr v1)
               | Str _ \<Rightarrow> Inl ValueError
               | _ \<Rightarrow> Inl TypeError)
         else Inr v)
      else Inr v)"

definition VehicleAgent_init :: "string \<Rightarrow> position \<Rightarrow> position \<Rightarrow> string \<Rightarrow> Vehicle" where
  "VehicleAgent_init uid pos dest vtype =
     \<lparr>unique_id = uid, vehicle_type = vtype, veh_position = pos, destination = dest,
      current_route = [], current_waypoint_index = 0,
      route_recalculation_timer = 0, route_recalculation_interval = 30,
      active = True, route_changes = 0, current_time = 0,
      veh_beliefs =
        update_belief
          (update_belief
             (update_belief
                (update_belief Map.empty 0 POSITION (BPos pos) ''self'')
                0 DESTINATION (BPos dest) ''self'')
             0 SPEED (BNum 0) ''self'')
          0 ROUTE (BRoute []) ''self'',
      last_message_type = None, reroute_history = None, route_attr = None\<rparr>"

section \<open>Crisis manager: Contract-Net arbitration (agents/crisis_manager_agent.py)\<close>

datatype Direction = NORTH | SOUTH | EAST | WEST

fun Direction_value :: "Direction \<Rightarrow> string" where
  "Direction_value NORTH = ''north''"
| "Direction_value SOUTH = ''south''"
| "Direction_value EAST = ''east''"
| "Direction_value WEST = ''west''"

record Proposal =
  p_sender :: string
  p_availability :: cval
  p_current_load :: cval
  p_message :: FIPAMessage

text \<open>
  What the crisis manager sees of the model: the inbox of each agent that
  \<open>get_agent_by_id\<close> finds, and for intersections their queue lengths (a dict, in
  insertion order) and the ids of their neighbours.
\<close>

record World =
  inboxes :: "string \<rightharpoonup> FIPAMessage list"
  world_queue_lengths :: "string \<rightharpoonup> (Direction \<times> int) list"
  world_neighbors :: "string \<rightharpoonup> string list"

record CrisisManager =
  cm_unique_id :: string
  cnp_proposals :: "string \<rightharpoonup> Proposal list"
  interventions_count :: int

text \<open>\<open>target = get_agent_by_id(id); if target: target.receive_message(msg)\<close>.\<close>

definition deliver :: "World \<Rightarrow> string \<Rightarrow> FIPAMessage \<Rightarrow> World" where
  "deliver w agent_id msg =
     (case inboxes w agent_id of
        None \<Rightarrow> w
      | Some box \<Rightarrow> w\<lparr>inboxes := (inboxes w)(agent_id \<mapsto> box @ [msg])\<rparr>)"

text \<open>
  \<open>max(proposals, key=lambda p: p['availability'])\<close>: the first proposal whose
  availability no later one exceeds; availabilities that are not numbers cannot be
  compared.
\<close>

fun max_availability :: "Proposal \<Rightarrow> Proposal list \<Rightarrow> py_error + Proposal" where
  "max_availability best [] = Inr best"
| "max_availability best (p # ps) =
     (case (p_availability p, p_availability best) of
        (Num a, Num b) \<Rightarrow> max_availability (if a > b then p else best) ps
      | _ \<Rightarrow> Inl TypeError)"

text \<open>
  The answer loop of \<open>_evaluate_cnp_proposal\<close>. \<open>stamp k\<close> is the clock reading
  (timestamp and message id) of the \<open>k\<close>-th message built in this call.
\<close>

fun cnp_answer_loop ::
  "string \<Rightarrow> string \<Rightarrow> string \<Rightarrow> (nat \<Rightarrow> real \<times> string) \<Rightarrow> nat \<Rightarrow> World \<Rightarrow> Proposal list \<Rightarrow> World" where
  "cnp_answer_loop self_id conv best_sender stamp k w [] = w"
| "cnp_answer_loop self_id conv best_sender stamp k w (proposal # rest) =
     (let accept_msg =
            (if p_sender proposal = best_sender
             then FIPAMessage_new self_id (p_sender proposal) ''accept-proposal''
                    [(''task'', Str ''priority_delegation''), (''priority_direction'', Str ''north'')]
                    None None (Some conv) None (fst (stamp k)) (snd (stamp k))
             else FIPAMessage_new self_id (p_sender proposal) ''reject-proposal''
                    [(''reason'', Str ''better_proposal_received'')]
                    None None (Some conv) None (fst (stamp k)) (snd (stamp k)))
      in cnp_answer_loop self_id conv best_sender stamp (Suc k)
           (deliver w (p_sender proposal) accept_msg) rest)"

definition evaluate_cnp_proposal ::
  "CrisisManager \<Rightarrow> World \<Rightarrow> (nat \<Rightarrow> real \<times> string) \<Rightarrow> FIPAMessage \<Rightarrow>
   py_error + (CrisisManager \<times> World)" where
  "evaluate_cnp_proposal cm w stamp message =
     (let conv = (case conversation_id message of
                    None \<Rightarrow> ''default''
                  | Some c \<Rightarrow> if c = [] then ''default'' else c);
          stored = (case cnp_proposals cm conv of None \<Rightarrow> [] | Some ps \<Rightarrow> ps);
          proposals = stored @
            [\<lparr>p_sender = sender message,
              p_availability = dict_get (content message) ''availability'' (Num 0),
              p_current_load = dict_get (content message) ''current_load'' (Num 0),
              p_message = message\<rparr>];
          cm1 = cm\<lparr>cnp_proposals := (cnp_proposals cm)(conv \<mapsto> proposals)\<rparr>
      in if length proposals \<ge> 2 then
           (case max_availability (hd proposals) (tl proposals) of
              Inl e \<Rightarrow> Inl e
            | Inr best \<Rightarrow>
                Inr (cm1\<lparr>cnp_proposals := (cnp_proposals cm1)(conv := None)\<rparr>,
                     cnp_answer_loop (cm_unique_id cm) conv (p_sender best) stamp 0 w proposals))
         else Inr (cm1, w))"

text \<open>
  The call for proposals of \<open>_delegate_priority_via_cnp\<close> for one congested
  intersection: the priority direction is the direction with the longest queue
  (\<open>max(queue_lengths, key=queue_lengths.get)\<close>, the first one among equals), or
  \<open>unknown\<close> when the agent or its queue lengths are missing or empty.
\<close>

fun worst_direction :: "Direction \<times> int \<Rightarrow> (Direction \<times> int) list \<Rightarrow> Direction" where
  "worst_direction best [] = fst best"
| "worst_direction best (d # ds) = worst_direction (if snd d > snd best then d else best) ds"

definition priority_direction_of :: "World \<Rightarrow> string \<Rightarrow> string" where
  "priority_direction_of w congested_id =
     (case world_queue_lengths w congested_id of
        None \<Rightarrow> ''unknown''
      | Some [] \<Rightarrow> ''unknown''
      | Some (q # qs) \<Rightarrow> Direction_value (worst_direction q qs))"

definition contract_net_protocol :: "string \<Rightarrow> content \<Rightarrow> real \<Rightarrow> string \<Rightarrow> FIPAMessage" where
  "contract_net_protocol manager_id cont ts mid =
     FIPAMessage_new manager_id ''broadcast'' ''request''
       ((''type'', Str ''call_for_proposals'') # cont)
       None (Some ''fipa-contract-net'') None None ts mid"

definition cnp_call_for_proposals ::
  "CrisisManager \<Rightarrow> World \<Rightarrow> string \<Rightarrow> cval \<Rightarrow> real \<Rightarrow> string \<Rightarrow> FIPAMessage" where
  "cnp_call_for_proposals cm w congested_id queue_total ts mid =
     contract_net_protocol (cm_unique_id cm)
       [(''task'', Str ''priority_delegation''),
        (''congested_intersection'', Str congested_id),
        (''congestion_level'', queue_total),
        (''direction'', Str (priority_direction_of w congested_id))]
       ts mid"

definition CrisisManagerAgent_init :: "string \<Rightarrow> CrisisManager" where
  "CrisisManagerAgent_init uid =
     \<lparr>cm_unique_id = uid, cnp_proposals = Map.empty, interventions_count = 0\<rparr>"

section \<open>Intersection agent (agents/intersection_agent.py)\<close>

datatype TrafficLightState = RED | YELLOW | GREEN

text \<open>
  A neighbour's state is the content of its \<open>neighbor_state\<close> message; the keys the
  agent reads are fields here, \<open>None\<close> when the key is missing. \<open>neighbor_states\<close> is a
  dict read in insertion order.
\<close>

record NeighborState =
  ns_phase :: "string option"
  ns_phase_timer_remaining :: "real option"
  ns_queue_lengths :: "(string \<times> real) list option"
  ns_outflow_estimate :: "real option"
  ns_position :: "position option"
  ns_timestamp :: "real option"

text \<open>
  The key of the Q-table is the string \<open>f"{ns}_{ew}_{phase}"\<close>; the triple it is
  printed from stands for it. An entry holds the values of \<open>change\<close> and \<open>keep\<close>.
\<close>

type_synonym qstate = "int \<times> int \<times> string"

datatype qaction = Change | Keep

record IntersectionAgent =
  ia_unique_id :: string
  ia_position :: position
  directions :: "Direction list"
  min_green_time :: real
  max_green_time :: real
  default_green_time :: real
  yellow_time :: real
  congestion_threshold :: int
  traffic_lights :: "Direction \<rightharpoonup> TrafficLightState"
  light_timers :: "Direction \<rightharpoonup> real"
  green_durations :: "Direction \<rightharpoonup> real"
  queue_lengths :: "Direction \<rightharpoonup> int"
  neighbor_states :: "(string \<times> NeighborState) list"
  green_wave_offset :: real
  green_wave_phase :: "string option"
  green_wave_active :: bool
  green_wave_timer :: real
  q_table :: "qstate \<rightharpoonup> real \<times> real"
  learning_rate :: real
  discount_factor :: real
  epsilon :: real
  epsilon_decay :: real
  epsilon_min :: real
  previous_state :: "qstate option"
  previous_action :: "qaction option"
  previous_total_waiting :: real
  total_vehicles_processed :: int
  phase_changes :: int
  coordination_messages_sent :: int
  ia_neighbors :: "string list"
  ia_current_time :: real
  congestion_belief :: "content option"

text \<open>What the agent reads of the model: \<open>None\<close> for an attribute the model lacks.\<close>

record Model =
  time_step :: "real option"
  use_q_learning :: "bool option"

definition model_time_step :: "Model \<Rightarrow> real" where
  "model_time_step m = (case time_step m of None \<Rightarrow> 1 | Some dt \<Rightarrow> dt)"

text \<open>\<open>_initialize_traffic_lights\<close>: one pass over \<open>directions\<close>.\<close>

fun initialize_traffic_lights ::
  "real \<Rightarrow> Direction list \<Rightarrow>
   (Direction \<rightharpoonup> TrafficLightState) \<times> (Direction \<rightharpoonup> real) \<times> (Direction \<rightharpoonup> real) \<Rightarrow>
   (Direction \<rightharpoonup> TrafficLightState) \<times> (Direction \<rightharpoonup> real) \<times> (Direction \<rightharpoonup> real)" where
  "initialize_traffic_lights dflt [] acc = acc"
| "initialize_traffic_lights dflt (d # ds) (lights, timers, durations) =
     initialize_traffic_lights dflt ds
       (if d \<in> {NORTH, SOUTH}
        then (lights(d \<mapsto> GREEN), timers(d \<mapsto> 0), durations(d \<mapsto> dflt))
        else (lights(d \<mapsto> RED), timers(d \<mapsto> 0), durations(d \<mapsto> dflt)))"

definition IntersectionAgent_init ::
  "string \<Rightarrow> position \<Rightarrow> Direction list option \<Rightarrow> IntersectionAgent" where
  "IntersectionAgent_init uid pos dirs =
     (let ds = (case dirs of None \<Rightarrow> [NORTH, SOUTH, EAST, WEST] | Some l \<Rightarrow> l);
          init = initialize_traffic_lights 30 ds (Map.empty, Map.empty, Map.empty)
      in \<lparr>ia_unique_id = uid, ia_position = pos, directions = ds,
          min_green_time = 15, max_green_time = 90, default_green_time = 30,
          yellow_time = 3, congestion_threshold = 10,
          traffic_lights = fst init, light_timers = fst (snd init),
          green_durations = snd (snd init),
          queue_lengths = (\<lambda>d. if d \<in> set ds then Some 0 else None),
          neighbor_states = [],
          green_wave_offset = 0, green_wave_phase = None, green_wave_active = False,
          green_wave_timer = 0,
          q_table = Map.empty, learning_rate = 0.1, discount_factor = 0.9,
          epsilon = 0.1, epsilon_decay = 0.995, epsilon_min = 0.01,
          previous_state = None, previous_action = None, previous_total_waiting = 0,
          total_vehicles_processed = 0, phase_changes = 0,
          coordination_messages_sent = 0, ia_neighbors = [], ia_current_time = 0,
          congestion_belief = None\<rparr>)"

text \<open>
  The timer of the current green, as both decision procedures compute it: the largest
  timer of a green direction, starting from 0. \<open>traffic_lights[d]\<close> and
  \<open>light_timers[d]\<close> raise \<open>KeyError\<close> for a missing key.
\<close>

fun green_timer_loop ::
  "(Direction \<rightharpoonup> TrafficLightState) \<Rightarrow> (Direction \<rightharpoonup> real) \<Rightarrow> Direction list \<Rightarrow> real \<Rightarrow>
   py_error + real" where
  "green_timer_loop lights timers [] acc = Inr acc"
| "green_timer_loop lights timers (d # ds) acc =
     (case lights d of
        None \<Rightarrow> Inl KeyError
      | Some st \<Rightarrow>
          if st = GREEN then
            (case timers d of
               None \<Rightarrow> Inl KeyError
             | Some t \<Rightarrow> green_timer_loop lights timers ds (max acc t))
          else green_timer_loop lights timers ds acc)"

definition current_green_timer :: "IntersectionAgent \<Rightarrow> py_error + real" where
  "current_green_timer s = green_timer_loop (traffic_lights s) (light_timers s) (directions s) 0"

definition get_current_phase :: "IntersectionAgent \<Rightarrow> string" where
  "get_current_phase s = (if traffic_lights s NORTH = Some GREEN then ''NS'' else ''EW'')"

text \<open>
  \<open>_estimate_downstream_queue\<close>: the first neighbour state with a non-empty
  \<open>queue_lengths\<close> gives its average queue, capped at 10; without one the estimate is 2
  for a green direction and 5 otherwise.
\<close>

fun first_neighbor_queue :: "(string \<times> NeighborState) list \<Rightarrow> real option" where
  "first_neighbor_queue [] = None"
| "first_neighbor_queue ((nid, st) # rest) =
     (case ns_queue_lengths st of
        Some (q # qs) \<Rightarrow>
          Some (min (sum_list (map snd (q # qs)) / real (length (q # qs))) 10)
      | _ \<Rightarrow> first_neighbor_queue rest)"

definition estimate_downstream_queue :: "IntersectionAgent \<Rightarrow> Direction \<Rightarrow> real" where
  "estimate_downstream_queue s d =
     (case first_neighbor_queue (neighbor_states s) of
        Some q \<Rightarrow> q
      | None \<Rightarrow> if traffic_lights s d = Some GREEN then 2 else 5)"

definition queue_in :: "IntersectionAgent \<Rightarrow> Direction \<Rightarrow> int" where
  "queue_in s d = (case queue_lengths s d of None \<Rightarrow> 0 | Some n \<Rightarrow> n)"

text \<open>The pressure of a phase: the sum over its directions of queue in minus queue out.\<close>

definition phase_pressure :: "IntersectionAgent \<Rightarrow> Direction list \<Rightarrow> real" where
  "phase_pressure s ds =
     sum_list (map (\<lambda>d. real_of_int (queue_in s d) - estimate_downstream_queue s d) ds)"

definition ns_directions :: "IntersectionAgent \<Rightarrow> Direction list" where
  "ns_directions s = filter (\<lambda>d. d \<in> {NORTH, SOUTH}) (directions s)"

definition ew_directions :: "IntersectionAgent \<Rightarrow> Direction list" where
  "ew_directions s = filter (\<lambda>d. d \<in> {EAST, WEST}) (directions s)"

text \<open>
  \<open>_max_pressure_decision\<close>. \<open>max(phase_pressures, key=...)\<close> reads the keys in the
  order \<open>NS\<close>, \<open>EW\<close> and keeps the first of two equal pressures. The last test indexes
  the direction list of the current phase with \<open>[0]\<close> (\<open>IndexError\<close> when it is empty)
  before it looks at the pressure.
\<close>

definition max_pressure_decision :: "IntersectionAgent \<Rightarrow> py_error + bool" where
  "max_pressure_decision s =
     (case current_green_timer s of
        Inl e \<Rightarrow> Inl e
      | Inr timer \<Rightarrow>
          if timer < min_green_time s then Inr False
          else
            (let pressure_ns = phase_pressure s (ns_directions s);
                 pressure_ew = phase_pressure s (ew_directions s);
                 current_phase = get_current_phase s;
                 max_pressure_phase = (if pressure_ns \<ge> pressure_ew then ''NS'' else ''EW'');
                 max_pressure_value =
                   (if max_pressure_phase = ''NS'' then pressure_ns else pressure_ew);
                 current_pressure_value =
                   (if current_phase = ''NS'' then pressure_ns else pressure_ew)
             in if max_pressure_phase \<noteq> current_phase \<and>
                   max_pressure_value - current_pressure_value > 5
                then Inr True
                else if timer > max_green_time s then Inr True
                else
                  (case (if current_phase = ''NS'' then ns_directions s else ew_directions s) of
                     [] \<Rightarrow> Inl IndexError
                   | d0 # _ \<Rightarrow>
                       Inr (timer > (case green_durations s d0 of
                                       None \<Rightarrow> default_green_time s
                                     | Some g \<Rightarrow> g)
                            \<and> current_pressure_value < 2))))"

text \<open>
  \<open>_get_state_representation\<close>: the two queue sums divided by 3 (floor) and capped at
  5, and the current phase.
\<close>

definition get_state_representation :: "IntersectionAgent \<Rightarrow> qstate" where
  "get_state_representation s =
     (let ns_queue = queue_in s NORTH + queue_in s SOUTH;
          ew_queue = queue_in s EAST + queue_in s WEST;
          current_phase = (if traffic_lights s NORTH = Some GREEN then ''NS'' else ''EW'')
      in (min (ns_queue div 3) 5, min (ew_queue div 3) 5, current_phase))"

definition queue_values :: "IntersectionAgent \<Rightarrow> int list" where
  "queue_values s = List.map_filter (queue_lengths s) [NORTH, SOUTH, EAST, WEST]"

definition compute_reward :: "IntersectionAgent \<Rightarrow> real" where
  "compute_reward s =
     (let current_total_waiting = real_of_int (sum_list (queue_values s));
          waiting_diff = previous_total_waiting s - current_total_waiting;
          max_queue = (case queue_values s of [] \<Rightarrow> 0 | q # qs \<Rightarrow> fold max qs q);
          congestion_penalty = - 0.5 * real_of_int (max 0 (max_queue - congestion_threshold s));
          throughput_bonus = 0.1 * real_of_int (total_vehicles_processed s)
      in waiting_diff + congestion_penalty + throughput_bonus)"

definition q_value :: "real \<times> real \<Rightarrow> qaction \<Rightarrow> real" where
  "q_value entry a = (case a of Change \<Rightarrow> fst entry | Keep \<Rightarrow> snd entry)"

definition q_init :: "(qstate \<rightharpoonup> real \<times> real) \<Rightarrow> qstate \<Rightarrow> (qstate \<rightharpoonup> real \<times> real)" where
  "q_init q st = (case q st of None \<Rightarrow> q(st \<mapsto> (0, 0)) | Some _ \<Rightarrow> q)"

text \<open>\<open>_update_q_table\<close>: the Bellman update; \<open>q_table[state]\<close> raises for a missing state.\<close>

definition update_q_table ::
  "IntersectionAgent \<Rightarrow> (qstate \<rightharpoonup> real \<times> real) \<Rightarrow> qstate \<Rightarrow> qaction \<Rightarrow> real \<Rightarrow> qstate \<Rightarrow>
   py_error + (qstate \<rightharpoonup> real \<times> real)" where
  "update_q_table s q st a reward next_state =
     (let q1 = q_init q next_state
      in case (q1 st, q1 next_state) of
           (Some entry, Some next_entry) \<Rightarrow>
             (let current_q = q_value entry a;
                  max_next_q = max (fst next_entry) (snd next_entry);
                  new_q = current_q +
                    learning_rate s * (reward + discount_factor s * max_next_q - current_q)
              in Inr (q1(st \<mapsto> (case a of Change \<Rightarrow> (new_q, snd entry)
                                            | Keep \<Rightarrow> (fst entry, new_q)))))
         | _ \<Rightarrow> Inl KeyError)"

text \<open>
  \<open>_q_learning_decision\<close>. \<open>r1\<close> and \<open>r2\<close> are the two draws of
  \<open>np.random.random()\<close>; the second is used only when exploring.
\<close>

definition q_learning_decision ::
  "IntersectionAgent \<Rightarrow> real \<Rightarrow> real \<Rightarrow> py_error + (bool \<times> IntersectionAgent)" where
  "q_learning_decision s r1 r2 =
     (case current_green_timer s of
        Inl e \<Rightarrow> Inl e
      | Inr timer \<Rightarrow>
          if timer < min_green_time s then Inr (False, s)
          else
            (let st = get_state_representation s;
                 q1 = q_init (q_table s) st
             in case (case (previous_state s, previous_action s) of
                        (Some ps, Some pa) \<Rightarrow> update_q_table s q1 ps pa (compute_reward s) st
                      | _ \<Rightarrow> Inr q1) of
                  Inl e \<Rightarrow> Inl e
                | Inr q2 \<Rightarrow>
                    (case (if r1 < epsilon s
                           then Inr (if r2 < 0.5 then Change else Keep)
                           else (case q2 st of
                                   None \<Rightarrow> Inl KeyError
                                 | Some entry \<Rightarrow>
                                     Inr (if fst entry > snd entry then Change else Keep))) of
                       Inl e \<Rightarrow> Inl e
                     | Inr a \<Rightarrow>
                         Inr (a = Change,
                              s\<lparr>q_table := q2,
                                previous_state := Some st,
                                previous_action := Some a,
                                previous_total_waiting := real_of_int (sum_list (queue_values s)),
                                epsilon := max (epsilon s * epsilon_decay s) (epsilon_min s)\<rparr>))))"

text \<open>
  \<open>_should_change_phase\<close>: an active green wave counts down and holds the phase
  while its timer is positive; then the policy of the model decides.
\<close>

definition should_change_phase ::
  "Model \<Rightarrow> IntersectionAgent \<Rightarrow> real \<Rightarrow> real \<Rightarrow> py_error + (bool \<times> IntersectionAgent)" where
  "should_change_phase m s r1 r2 =
     (let s0 = (if green_wave_active s
                then s\<lparr>green_wave_timer := green_wave_timer s - model_time_step m\<rparr>
                else s)
      in if green_wave_active s \<and> green_wave_timer s0 > 0 then Inr (False, s0)
         else
           (let s1 = (if green_wave_active s then s0\<lparr>green_wave_active := False\<rparr> else s0)
            in if use_q_learning m = Some True then q_learning_decision s1 r1 r2
               else (case max_pressure_decision s1 of
                       Inl e \<Rightarrow> Inl e
                     | Inr b \<Rightarrow> Inr (b, s1))))"

text \<open>The list comprehension \<open>[d for d in directions if traffic_lights[d] == GREEN]\<close>.\<close>

fun green_directions ::
  "(Direction \<rightharpoonup> TrafficLightState) \<Rightarrow> Direction list \<Rightarrow> py_error + Direction list" where
  "green_directions lights [] = Inr []"
| "green_directions lights (d # ds) =
     (case lights d of
        None \<Rightarrow> Inl KeyError
      | Some st \<Rightarrow>
          (case green_directions lights ds of
             Inl e \<Rightarrow> Inl e
           | Inr gs \<Rightarrow> Inr (if st = GREEN then d # gs else gs)))"

text \<open>
  The bonus of \<open>_change_traffic_light_phase\<close>: the first neighbour state whose phase
  is the next phase gives twice its outflow estimate, capped at 20.
\<close>

fun neighbor_bonus :: "string \<Rightarrow> (string \<times> NeighborState) list \<Rightarrow> real" where
  "neighbor_bonus next_phase [] = 0"
| "neighbor_bonus next_phase ((nid, st) # rest) =
     (if ns_phase st = Some next_phase
      then min ((case ns_outflow_estimate st of None \<Rightarrow> 0 | Some f \<Rightarrow> f) * 2) 20
      else neighbor_bonus next_phase rest)"

fun set_red :: "Direction list \<Rightarrow> IntersectionAgent \<Rightarrow> IntersectionAgent" where
  "set_red [] s = s"
| "set_red (d # ds) s =
     set_red ds (s\<lparr>traffic_lights := (traffic_lights s)(d \<mapsto> RED),
                    light_timers := (light_timers s)(d \<mapsto> 0)\<rparr>)"

fun set_green :: "string \<Rightarrow> Direction list \<Rightarrow> IntersectionAgent \<Rightarrow> IntersectionAgent" where
  "set_green next_phase [] s = s"
| "set_green next_phase (d # ds) s =
     set_green next_phase ds
       (s\<lparr>traffic_lights := (traffic_lights s)(d \<mapsto> GREEN),
          light_timers := (light_timers s)(d \<mapsto> 0),
          green_durations := (green_durations s)(d \<mapsto>
            min (min_green_time s + real_of_int (queue_in s d * 2)
                   + neighbor_bonus next_phase (neighbor_states s))
                (max_green_time s))\<rparr>)"

text \<open>
  \<open>_change_traffic_light_phase\<close>. The next phase is the other one, unless a green
  wave has stored a (non-empty) target phase and no green wave is active; any string
  other than \<open>NS\<close> selects the east-west group.
\<close>

definition change_traffic_light_phase ::
  "IntersectionAgent \<Rightarrow> py_error + (bool \<times> IntersectionAgent)" where
  "change_traffic_light_phase s =
     (case green_directions (traffic_lights s) (directions s) of
        Inl e \<Rightarrow> Inl e
      | Inr current_green_directions \<Rightarrow>
          if current_green_directions = [] then Inr (False, s)
          else
            (let current_phase = get_current_phase s;
                 wave = (case green_wave_phase s of
                           None \<Rightarrow> False
                         | Some p \<Rightarrow> p \<noteq> [] \<and> \<not> green_wave_active s);
                 next_phase =
                   (if wave then (case green_wave_phase s of Some p \<Rightarrow> p | None \<Rightarrow> [])
                    else if current_phase = ''NS'' then ''EW'' else ''NS'');
                 s1 = (if wave then s\<lparr>green_wave_phase := None, green_wave_offset := 0\<rparr> else s);
                 new_green_group =
                   (if next_phase = ''NS'' then ns_directions s1 else ew_directions s1);
                 new_red_group =
                   (if next_phase = ''NS'' then ew_directions s1 else ns_directions s1);
                 s2 = set_red new_red_group s1;
                 s3 = set_green next_phase new_green_group s2
             in Inr (True, s3\<lparr>phase_changes := phase_changes s3 + 1\<rparr>)))"

text \<open>
  The guard of \<open>_force_green\<close>: \<open>True\<close> when some green direction has run for less
  than \<open>min_green_time\<close> (the method then returns at once).
\<close>

fun green_too_recent ::
  "(Direction \<rightharpoonup> TrafficLightState) \<Rightarrow> (Direction \<rightharpoonup> real) \<Rightarrow> real \<Rightarrow> Direction list \<Rightarrow>
   py_error + bool" where
  "green_too_recent lights timers mn [] = Inr False"
| "green_too_recent lights timers mn (d # ds) =
     (case lights d of
        None \<Rightarrow> Inl KeyError
      | Some st \<Rightarrow>
          if st = GREEN then
            (case timers d of
               None \<Rightarrow> Inl KeyError
             | Some t \<Rightarrow> if t < mn then Inr True else green_too_recent lights timers mn ds)
          else green_too_recent lights timers mn ds)"

fun force_lights ::
  "TrafficLightState \<Rightarrow> Direction list \<Rightarrow> IntersectionAgent \<Rightarrow> IntersectionAgent" where
  "force_lights c [] s = s"
| "force_lights c (d # ds) s =
     force_lights c ds
       (if traffic_lights s d \<noteq> None
        then s\<lparr>traffic_lights := (traffic_lights s)(d \<mapsto> c),
               light_timers := (light_timers s)(d \<mapsto> 0)\<rparr>
        else s)"

definition force_green :: "IntersectionAgent \<Rightarrow> Direction \<Rightarrow> py_error + IntersectionAgent" where
  "force_green s target_direction =
     (case green_too_recent (traffic_lights s) (light_timers s) (min_green_time s)
             (directions s) of
        Inl e \<Rightarrow> Inl e
      | Inr True \<Rightarrow> Inr s
      | Inr False \<Rightarrow>
          if traffic_lights s target_direction = Some GREEN then Inr s
          else
            (let green_group = (if target_direction \<in> {NORTH, SOUTH}
                                then [NORTH, SOUTH] else [EAST, WEST]);
                 red_group = (if target_direction \<in> {NORTH, SOUTH}
                              then [EAST, WEST] else [NORTH, SOUTH]);
                 s1 = force_lights GREEN green_group s;
                 s2 = force_lights RED red_group s1
             in Inr (s2\<lparr>phase_changes := phase_changes s2 + 1\<rparr>)))"

definition get_approach_direction :: "IntersectionAgent \<Rightarrow> position \<Rightarrow> Direction" where
  "get_approach_direction s vehicle_pos =
     (let dx = fst vehicle_pos - fst (ia_position s);
          dy = snd vehicle_pos - snd (ia_position s)
      in if \<bar>dx\<bar> > \<bar>dy\<bar> then (if dx > 0 then EAST else WEST)
         else (if dy > 0 then NORTH else SOUTH))"

text \<open>
  \<open>_handle_emergency_priority\<close>: the new state of the intersection and the
  acknowledgement it addresses to the sender (\<open>None\<close> when the request carries no
  vehicle position). A position that is neither a pair nor falsy raises \<open>TypeError\<close>.
\<close>

definition handle_emergency_priority ::
  "IntersectionAgent \<Rightarrow> FIPAMessage \<Rightarrow> real \<Rightarrow> string \<Rightarrow>
   py_error + (IntersectionAgent \<times> FIPAMessage option)" where
  "handle_emergency_priority s message ts mid =
     (case map_of (content message) ''vehicle_position'' of
        Some (Pos x y) \<Rightarrow>
          (let approach_dir = get_approach_direction s (x, y)
           in case force_green s approach_dir of
                Inl e \<Rightarrow> Inl e
              | Inr s' \<Rightarrow>
                  Inr (s', Some (FIPAMessage_new (ia_unique_id s) (sender message) ''INFORM''
                                   [(''type'', Str ''emergency_acknowledged''),
                                    (''green_direction'', Str (Direction_value approach_dir)),
                                    (''intersection'', Str (ia_unique_id s))]
                                   None None None (Some (message_id message)) ts mid)))
      | Some (Num r) \<Rightarrow> if r = 0 then Inr (s, None) else Inl TypeError
      | Some (Str t) \<Rightarrow> if t = [] then Inr (s, None) else Inl TypeError
      | Some (Dict kv) \<Rightarrow> if kv = [] then Inr (s, None) else Inl TypeError
      | _ \<Rightarrow> Inr (s, None))"

text \<open>
  The states an intersection agent can be in: the state after \<open>__init__\<close>, the states
  after a phase change by \<open>_change_traffic_light_phase\<close> or \<open>_force_green\<close>, and
  between them any change of the other attributes (timers, queues, neighbour states,
  green-wave and learning data) that leaves the lights and the directions alone.
\<close>

inductive reachable :: "IntersectionAgent \<Rightarrow> bool" where
  reach_init: "reachable (IntersectionAgent_init uid pos dirs)"
| reach_other:
    "reachable s \<Longrightarrow> traffic_lights s' = traffic_lights s \<Longrightarrow> directions s' = directions s \<Longrightarrow>
     reachable s'"
| reach_change: "reachable s \<Longrightarrow> change_traffic_light_phase s = Inr (ok, s') \<Longrightarrow> reachable s'"
| reach_force: "reachable s \<Longrightarrow> force_green s d = Inr s' \<Longrightarrow> reachable s'"

text \<open>
  The phase invariant. A group has green when one of its directions at the
  intersection is green; it is all of one colour when each of its directions at the
  intersection has that colour.
\<close>

definition has_green :: "IntersectionAgent \<Rightarrow> Direction list \<Rightarrow> bool" where
  "has_green s g = (\<exists>d \<in> set (directions s). d \<in> set g \<and> traffic_lights s d = Some GREEN)"

definition group_all :: "IntersectionAgent \<Rightarrow> Direction list \<Rightarrow> TrafficLightState \<Rightarrow> bool" where
  "group_all s g c = (\<forall>d \<in> set (directions s). d \<in> set g \<longrightarrow> traffic_lights s d = Some c)"

definition phase_exclusive :: "IntersectionAgent \<Rightarrow> bool" where
  "phase_exclusive s =
     ((has_green s [NORTH, SOUTH] \<and> group_all s [NORTH, SOUTH] GREEN \<and> group_all s [EAST, WEST] RED) \<or>
      (has_green s [EAST, WEST] \<and> group_all s [EAST, WEST] GREEN \<and> group_all s [NORTH, SOUTH] RED))"

definition both_groups :: "Direction list \<Rightarrow> bool" where
  "both_groups ds = ((NORTH \<in> set ds \<or> SOUTH \<in> set ds) \<and> (EAST \<in> set ds \<or> WEST \<in> set ds))"

text \<open>The keys of \<open>traffic_lights\<close> are the directions of the intersection.\<close>

definition lights_on_directions :: "IntersectionAgent \<Rightarrow> bool" where
  "lights_on_directions s = (\<forall>d. (traffic_lights s d \<noteq> None) = (d \<in> set (directions s)))"

text \<open>
  The scheduler polls \<open>restore_expired_blockages\<close> with the current time at every
  step: \<open>poll_blockages\<close> is a sequence of such calls.
\<close>

definition poll_blockages :: "RoadNetwork \<Rightarrow> real list \<Rightarrow> RoadNetwork" where
  "poll_blockages net polls = foldl restore_expired_blockages net polls"

section \<open>Intersection agent: the BDI step (agents/bdi_agent.py, agents/intersection_agent.py)\<close>

text \<open>
  The step of an intersection agent is \<open>BDIAgent.step\<close>: perceive (which handles the
  inbox), deliberate, execute the intentions, advance the clock. Messages the agent
  sends to other agents are not part of its state and are left out; so are the desires,
  which neither deliberation nor execution reads.
\<close>

text \<open>\<open>d[k] = v\<close> on a dict in insertion order: a known key keeps its place.\<close>

fun dict_set :: "(string \<times> 'a) list \<Rightarrow> string \<Rightarrow> 'a \<Rightarrow> (string \<times> 'a) list" where
  "dict_set [] k v = [(k, v)]"
| "dict_set ((k', v') # rest) k v =
     (if k' = k then (k, v) # rest else (k', v') # dict_set rest k v)"

text \<open>
  The content of a \<open>neighbor_state\<close> message, read through the keys the agent uses. A
  value of another type than the senders in the repository produce counts as missing.
\<close>

definition neighbor_state_of_content :: "content \<Rightarrow> NeighborState" where
  "neighbor_state_of_content c =
     \<lparr>ns_phase = (case map_of c ''phase'' of Some (Str p) \<Rightarrow> Some p | _ \<Rightarrow> None),
      ns_phase_timer_remaining =
        (case map_of c ''phase_timer_remaining'' of Some (Num r) \<Rightarrow> Some r | _ \<Rightarrow> None),
      ns_queue_lengths = (case map_of c ''queue_lengths'' of Some (Dict kv) \<Rightarrow> Some kv | _ \<Rightarrow> None),
      ns_outflow_estimate =
        (case map_of c ''outflow_estimate'' of Some (Num r) \<Rightarrow> Some r | _ \<Rightarrow> None),
      ns_position = (case map_of c ''position'' of Some (Pos x y) \<Rightarrow> Some (x, y) | _ \<Rightarrow> None),
      ns_timestamp = (case map_of c ''timestamp'' of Some (Num r) \<Rightarrow> Some r | _ \<Rightarrow> None)\<rparr>"

text \<open>The normalisation of a congestion report in \<open>handle_message\<close>: the key \<open>level\<close>.\<close>

definition normalize_congestion :: "content \<Rightarrow> py_error + content" where
  "normalize_congestion c =
     (if ''level'' \<in> fst ` set c then Inr c
      else (case dict_get c ''congestion_level'' (Num 0) of
              Num raw \<Rightarrow>
                Inr (c @ [(''level'', Str (if raw \<ge> 0.8 then ''fort''
                                           else if raw \<ge> 0.5 then ''moyen'' else ''faible''))])
            | _ \<Rightarrow> Inl TypeError))"

text \<open>
  \<open>_get_phase_timer\<close>: the time left of the first green direction, not below 0.
\<close>

fun phase_timer_loop ::
  "(Direction \<rightharpoonup> TrafficLightState) \<Rightarrow> (Direction \<rightharpoonup> real) \<Rightarrow> (Direction \<rightharpoonup> real) \<Rightarrow>
   Direction list \<Rightarrow> py_error + real" where
  "phase_timer_loop lights durations timers [] = Inr 0"
| "phase_timer_loop lights durations timers (d # ds) =
     (case lights d of
        None \<Rightarrow> Inl KeyError
      | Some st \<Rightarrow>
          if st = GREEN then
            (case (durations d, timers d) of
               (Some g, Some t) \<Rightarrow> Inr (max (g - t) 0)
             | _ \<Rightarrow> Inl KeyError)
          else phase_timer_loop lights durations timers ds)"

definition get_phase_timer :: "IntersectionAgent \<Rightarrow> py_error + real" where
  "get_phase_timer s =
     phase_timer_loop (traffic_lights s) (green_durations s) (light_timers s) (directions s)"

text \<open>
  \<open>_handle_query\<close> only answers the sender; for a \<open>light_status\<close> query it reads the
  phase timer, which can raise.
\<close>

definition handle_query :: "IntersectionAgent \<Rightarrow> FIPAMessage \<Rightarrow> py_error + IntersectionAgent" where
  "handle_query s message =
     (if dict_get (content message) ''query_type'' (Str ''status'') = Str ''light_status''
      then (case get_phase_timer s of Inl e \<Rightarrow> Inl e | Inr _ \<Rightarrow> Inr s)
      else Inr s)"

text \<open>
  \<open>_handle_cfp\<close>: a proposal is sent, and counted, when the availability exceeds 0.3
  and the model knows the sender (\<open>known\<close>).
\<close>

definition handle_cfp ::
  "(string \<Rightarrow> bool) \<Rightarrow> IntersectionAgent \<Rightarrow> FIPAMessage \<Rightarrow> IntersectionAgent" where
  "handle_cfp known s message =
     (let current_load = sum_list (queue_values s);
          max_capacity = congestion_threshold s * int (length (directions s));
          availability = 1 - real_of_int current_load / real_of_int (max max_capacity 1)
      in if availability > 0.3 \<and> known (sender message)
         then s\<lparr>coordination_messages_sent := coordination_messages_sent s + 1\<rparr>
         else s)"

text \<open>
  \<open>_execute_cnp_task\<close>: for the task \<open>priority_delegation\<close>, the first direction of
  the intersection whose value is the requested \<open>priority_direction\<close> is forced green.
\<close>

definition execute_cnp_task :: "IntersectionAgent \<Rightarrow> FIPAMessage \<Rightarrow> py_error + IntersectionAgent" where
  "execute_cnp_task s message =
     (if dict_get (content message) ''task'' (Str ''priority_delegation'') = Str ''priority_delegation''
      then (case map_of (content message) ''priority_direction'' of
              Some (Str direction_str) \<Rightarrow>
                (case find (\<lambda>d. Direction_value d = direction_str) (directions s) of
                   Some d \<Rightarrow> force_green s d
                 | None \<Rightarrow> Inr s)
            | _ \<Rightarrow> Inr s)
      else Inr s)"

text \<open>\<open>_handle_green_wave_proposal\<close>: the legacy proposal is stored as a neighbour state.\<close>

definition handle_green_wave_proposal :: "IntersectionAgent \<Rightarrow> FIPAMessage \<Rightarrow> IntersectionAgent" where
  "handle_green_wave_proposal s message =
     s\<lparr>neighbor_states := dict_set (neighbor_states s) (sender message)
          \<lparr>ns_phase = (case map_of (content message) ''my_phase'' of
                         Some (Str p) \<Rightarrow> Some p | _ \<Rightarrow> None),
           ns_phase_timer_remaining =
             (case dict_get (content message) ''my_timer'' (Num 0) of
                Num r \<Rightarrow> Some r | _ \<Rightarrow> None),
           ns_queue_lengths = Some [],
           ns_outflow_estimate = Some 0,
           ns_position = None,
           ns_timestamp = Some (ia_current_time s)\<rparr>\<rparr>"

text \<open>
  \<open>IntersectionAgent.handle_message\<close>. \<open>ts\<close> and \<open>mid\<close> are the clock readings for an
  acknowledgement.
\<close>

definition intersection_handle_message ::
  "(string \<Rightarrow> bool) \<Rightarrow> real \<Rightarrow> string \<Rightarrow> IntersectionAgent \<Rightarrow> FIPAMessage \<Rightarrow>
   py_error + IntersectionAgent" where
  "intersection_handle_message known ts mid s message =
     (let perf = performative message;
          msg_type = dict_get (content message) ''type'' (Str '''')
      in if (perf = ''INFORM'' \<or> perf = ''inform'') \<and> msg_type = Str ''neighbor_state'' then
           Inr (s\<lparr>neighbor_states := dict_set (neighbor_states s) (sender message)
                                       (neighbor_state_of_content (content message))\<rparr>)
         else if (perf = ''INFORM'' \<or> perf = ''inform'') \<and>
                 (msg_type = Str ''congestion'' \<or> msg_type = Str ''incident_report'') then
           (case normalize_congestion (content message) of
              Inl e \<Rightarrow> Inl e
            | Inr c \<Rightarrow> Inr (s\<lparr>congestion_belief := Some c\<rparr>))
         else if perf = ''PROPOSE'' then
           (if map_of (content message) ''type'' = Some (Str ''green_wave_coordination'')
            then Inr (handle_green_wave_proposal s message) else Inr s)
         else if perf = ''QUERY'' then handle_query s message
         else if perf = ''request'' then
           (if map_of (content message) ''type'' = Some (Str ''call_for_proposals'')
            then Inr (handle_cfp known s message)
            else if map_of (content message) ''type'' = Some (Str ''emergency_priority'')
            then (case handle_emergency_priority s message ts mid of
                    Inl e \<Rightarrow> Inl e
                  | Inr (s', reply) \<Rightarrow> Inr s')
            else Inr s)
         else if perf = ''accept-proposal'' then execute_cnp_task s message
         else Inr s)"

text \<open>\<open>process_messages\<close>: the inbox is handled in order; an exception ends the step.\<close>

fun process_messages ::
  "(string \<Rightarrow> bool) \<Rightarrow> real \<Rightarrow> string \<Rightarrow> IntersectionAgent \<Rightarrow> FIPAMessage list \<Rightarrow>
   py_error + IntersectionAgent" where
  "process_messages known ts mid s [] = Inr s"
| "process_messages known ts mid s (message # rest) =
     (case intersection_handle_message known ts mid s message of
        Inl e \<Rightarrow> Inl e
      | Inr s' \<Rightarrow> process_messages known ts mid s' rest)"

text \<open>
  \<open>_count_vehicles\<close> over the positions of the vehicle agents of the schedule: a
  vehicle closer than 50 m is counted on its approach direction; \<open>vehicle_counts\<close> has
  the directions of the intersection as keys, so another direction raises \<open>KeyError\<close>.
\<close>

fun count_vehicles ::
  "IntersectionAgent \<Rightarrow> position list \<Rightarrow> (Direction \<rightharpoonup> int) \<Rightarrow> py_error + (Direction \<rightharpoonup> int)" where
  "count_vehicles s [] counts = Inr counts"
| "count_vehicles s (p # ps) counts =
     (if euclidean_distance (ia_position s) p < 50 then
        (case counts (get_approach_direction s p) of
           None \<Rightarrow> Inl KeyError
         | Some n \<Rightarrow> count_vehicles s ps (counts(get_approach_direction s p \<mapsto> n + 1)))
      else count_vehicles s ps counts)"

text \<open>
  \<open>perceive\<close>: the queues are counted anew and the congestion belief is refreshed
  from the longest queue (\<open>perceive_update\<close>), then the inbox is handled.
\<close>

definition perceive_update :: "position list \<Rightarrow> IntersectionAgent \<Rightarrow> py_error + IntersectionAgent" where
  "perceive_update vehicles s =
     (case count_vehicles s vehicles (\<lambda>d. if d \<in> set (directions s) then Some 0 else None) of
        Inl e \<Rightarrow> Inl e
      | Inr counts \<Rightarrow>
          (let s1 = s\<lparr>queue_lengths :=
                         (\<lambda>d. if d \<in> set (directions s) then counts d else queue_lengths s d)\<rparr>;
               max_queue = (case queue_values s1 of [] \<Rightarrow> 0 | q # qs \<Rightarrow> fold max qs q);
               congestion_level =
                 (if real_of_int max_queue > real_of_int (congestion_threshold s1) * 1.5 then ''fort''
                  else if max_queue > congestion_threshold s1 then ''moyen''
                  else ''faible'')
           in Inr (s1\<lparr>congestion_belief :=
                         Some [(''level'', Str congestion_level),
                               (''max_queue'', Num (real_of_int max_queue))]\<rparr>)))"

definition perceive ::
  "(string \<Rightarrow> bool) \<Rightarrow> real \<Rightarrow> string \<Rightarrow> position list \<Rightarrow> FIPAMessage list \<Rightarrow>
   IntersectionAgent \<Rightarrow> py_error + IntersectionAgent" where
  "perceive known ts mid vehicles inbox_messages s =
     (case perceive_update vehicles s of
        Inl e \<Rightarrow> Inl e
      | Inr s1 \<Rightarrow> process_messages known ts mid s1 inbox_messages)"

datatype IntentionType =
  MOVE_FORWARD | CHANGE_ROUTE | STOP | CHANGE_LIGHT_TIMING | BROADCAST_CONGESTION |
  NEGOTIATE_WITH_NEIGHBOR | ACCELERATE | DECELERATE

text \<open>
  The first loop of \<open>deliberate\<close>: \<open>light_timers[d] += time_step\<close> for every direction.
  The sum is a binary64 addition, the exact sum rounded; \<open>fadd\<close> is that addition,
  and nothing is assumed of it.
\<close>

fun advance_timers ::
  "(real \<Rightarrow> real \<Rightarrow> real) \<Rightarrow> real \<Rightarrow> Direction list \<Rightarrow> (Direction \<rightharpoonup> real) \<Rightarrow>
   py_error + (Direction \<rightharpoonup> real)" where
  "advance_timers fadd dt [] timers = Inr timers"
| "advance_timers fadd dt (d # ds) timers =
     (case timers d of
        None \<Rightarrow> Inl KeyError
      | Some t \<Rightarrow> advance_timers fadd dt ds (timers(d \<mapsto> fadd t dt)))"

text \<open>\<open>int(x)\<close> on a float: truncation towards zero.\<close>

definition py_int :: "real \<Rightarrow> int" where
  "py_int x = (if x \<ge> 0 then \<lfloor>x\<rfloor> else \<lceil>x\<rceil>)"

text \<open>
  \<open>deliberate\<close>: the timers advance, then the intentions are listed: a phase change
  when \<open>_should_change_phase\<close> says so, a congestion broadcast when the believed level
  is \<open>fort\<close>, and every \<open>sync_steps\<close> steps a negotiation with the neighbours.
  \<open>current_step\<close> is the step counter of the model; the sync interval is 10 s.
\<close>

definition deliberate ::
  "(real \<Rightarrow> real \<Rightarrow> real) \<Rightarrow> Model \<Rightarrow> int \<Rightarrow> real \<Rightarrow> real \<Rightarrow> IntersectionAgent \<Rightarrow>
   py_error + (IntentionType list \<times> IntersectionAgent)" where
  "deliberate fadd m current_step r1 r2 s =
     (case advance_timers fadd (model_time_step m) (directions s) (light_timers s) of
        Inl e \<Rightarrow> Inl e
      | Inr timers \<Rightarrow>
          (case should_change_phase m (s\<lparr>light_timers := timers\<rparr>) r1 r2 of
             Inl e \<Rightarrow> Inl e
           | Inr (change, s1) \<Rightarrow>
               (case (case congestion_belief s1 of
                        None \<Rightarrow> Inr False
                      | Some c \<Rightarrow>
                          if c = [] then Inr False
                          else (case map_of c ''level'' of
                                  None \<Rightarrow> Inl KeyError
                                | Some l \<Rightarrow> Inr (l = Str ''fort''))) of
                  Inl e \<Rightarrow> Inl e
                | Inr congested \<Rightarrow>
                    if model_time_step m = 0 then Inl ZeroDivisionError
                    else
                      (let sync_steps = max 1 (py_int (10 / model_time_step m));
                           negotiate = (ia_neighbors s1 \<noteq> [] \<and> current_step mod sync_steps = 0)
                       in Inr ((if change then [CHANGE_LIGHT_TIMING] else []) @
                               (if congested then [BROADCAST_CONGESTION] else []) @
                               (if negotiate then [NEGOTIATE_WITH_NEIGHBOR] else []),
                               s1)))))"

text \<open>
  The first branch of \<open>_schedule_green_wave\<close>: every green direction gets a longer
  green, up to \<open>max_green_time\<close>. The result is the state at the end of the loop, with
  the exception that ended it, if any.
\<close>

fun extend_green ::
  "real \<Rightarrow> Direction list \<Rightarrow> IntersectionAgent \<Rightarrow> IntersectionAgent \<times> py_error option" where
  "extend_green extra_time [] s = (s, None)"
| "extend_green extra_time (d # ds) s =
     (if traffic_lights s d = Some GREEN then
        (case green_durations s d of
           None \<Rightarrow> (s, Some KeyError)
         | Some g \<Rightarrow>
             extend_green extra_time ds
               (s\<lparr>green_durations := (green_durations s)(d \<mapsto>
                     min (g + extra_time) (max_green_time s))\<rparr>))
      else extend_green extra_time ds s)"

fun green_timer_get_loop ::
  "(Direction \<rightharpoonup> TrafficLightState) \<Rightarrow> (Direction \<rightharpoonup> real) \<Rightarrow> Direction list \<Rightarrow> real \<Rightarrow>
   py_error + real" where
  "green_timer_get_loop lights timers [] acc = Inr acc"
| "green_timer_get_loop lights timers (d # ds) acc =
     (if lights d = Some GREEN then
        (case timers d of
           None \<Rightarrow> Inl KeyError
         | Some t \<Rightarrow> green_timer_get_loop lights timers ds (max acc t))
      else green_timer_get_loop lights timers ds acc)"

text \<open>
  \<open>_schedule_green_wave\<close>. When the flow is due within \<open>min_green_time\<close> and the
  current green has lasted that long, the target phase is forced through
  \<open>_force_green\<close> and the green wave is switched on; a later flow is remembered for the
  next phase change.
\<close>

definition schedule_green_wave ::
  "IntersectionAgent \<Rightarrow> string \<Rightarrow> real \<Rightarrow> real \<Rightarrow> IntersectionAgent \<times> py_error option" where
  "schedule_green_wave s target_phase offset expected_flow =
     (if get_current_phase s = target_phase then
        extend_green (min (expected_flow * 2) (max_green_time s)) (directions s) s
      else if offset \<le> min_green_time s then
        (case green_timer_get_loop (traffic_lights s) (light_timers s) (directions s) 0 of
           Inl e \<Rightarrow> (s, Some e)
         | Inr timer \<Rightarrow>
             if timer \<ge> min_green_time s then
               (case force_green s (if target_phase = ''NS'' then NORTH else EAST) of
                  Inl e \<Rightarrow> (s, Some e)
                | Inr s1 \<Rightarrow>
                    (s1\<lparr>green_wave_active := True,
                        green_wave_phase := Some target_phase,
                        green_wave_timer := min (expected_flow * 2) (max_green_time s1)\<rparr>,
                     None))
             else (s, None))
      else (s\<lparr>green_wave_offset := offset, green_wave_phase := Some target_phase\<rparr>, None))"

text \<open>
  The search of \<open>_apply_neighbor_coordination\<close> for the largest predicted inflow among
  the neighbour states not older than 30 s that have a position and a positive
  outflow: the flow, the phase and the arrival time of the best one so far.
\<close>

fun best_incoming ::
  "IntersectionAgent \<Rightarrow> (string \<times> NeighborState) list \<Rightarrow> real \<times> string option \<times> real \<Rightarrow>
   real \<times> string option \<times> real" where
  "best_incoming s [] best = best"
| "best_incoming s ((nid, st) # rest) (best_flow, best_phase, best_offset) =
     (let age = ia_current_time s -
                  (case ns_timestamp st of None \<Rightarrow> ia_current_time s | Some t \<Rightarrow> t);
          timer_remaining = (case ns_phase_timer_remaining st of None \<Rightarrow> 0 | Some t \<Rightarrow> t);
          outflow = (case ns_outflow_estimate st of None \<Rightarrow> 0 | Some f \<Rightarrow> f)
      in if age > 30 then best_incoming s rest (best_flow, best_phase, best_offset)
         else (case ns_position st of
                 None \<Rightarrow> best_incoming s rest (best_flow, best_phase, best_offset)
               | Some neighbor_pos \<Rightarrow>
                   if outflow \<le> 0 then best_incoming s rest (best_flow, best_phase, best_offset)
                   else
                     (let travel_time = euclidean_distance (ia_position s) neighbor_pos / 8.33;
                          arrival_in = timer_remaining + travel_time
                      in if outflow > best_flow
                         then best_incoming s rest (outflow, ns_phase st, arrival_in)
                         else best_incoming s rest (best_flow, best_phase, best_offset))))"

definition apply_neighbor_coordination ::
  "IntersectionAgent \<Rightarrow> IntersectionAgent \<times> py_error option" where
  "apply_neighbor_coordination s =
     (if neighbor_states s = [] then (s, None)
      else (case best_incoming s (neighbor_states s) (0, None, 0) of
              (best_flow, Some phase, best_offset) \<Rightarrow>
                if phase \<noteq> [] \<and> best_flow \<ge> 2
                then schedule_green_wave s phase best_offset best_flow
                else (s, None)
            | (best_flow, None, best_offset) \<Rightarrow> (s, None)))"

text \<open>
  \<open>_broadcast_state_to_neighbors\<close>: the phase timer is read (for the message), every
  neighbour gets the state and is counted, then the own coordination is recomputed.
\<close>

definition broadcast_state_to_neighbors ::
  "IntersectionAgent \<Rightarrow> IntersectionAgent \<times> py_error option" where
  "broadcast_state_to_neighbors s =
     (case get_phase_timer s of
        Inl e \<Rightarrow> (s, Some e)
      | Inr _ \<Rightarrow>
          apply_neighbor_coordination
            (s\<lparr>coordination_messages_sent :=
                 coordination_messages_sent s + int (length (ia_neighbors s))\<rparr>))"

text \<open>
  \<open>execute_intention\<close>: the result of the action, or \<open>False\<close> when it raised (the
  \<open>try\<close> block catches every exception and what was assigned before stays).
\<close>

definition execute_intention :: "IntersectionAgent \<Rightarrow> IntentionType \<Rightarrow> bool \<times> IntersectionAgent" where
  "execute_intention s intention =
     (if intention = CHANGE_LIGHT_TIMING then
        (case change_traffic_light_phase s of
           Inl e \<Rightarrow> (False, s)
         | Inr r \<Rightarrow> r)
      else if intention = BROADCAST_CONGESTION then (True, s)
      else if intention = NEGOTIATE_WITH_NEIGHBOR then
        (case broadcast_state_to_neighbors s of
           (s', None) \<Rightarrow> (True, s')
         | (s', Some e) \<Rightarrow> (False, s'))
      else (False, s))"

text \<open>\<open>execute_intentions\<close>: every pending intention is run, in order, and purged.\<close>

fun execute_intentions :: "IntersectionAgent \<Rightarrow> IntentionType list \<Rightarrow> IntersectionAgent" where
  "execute_intentions s [] = s"
| "execute_intentions s (i # rest) = execute_intentions (snd (execute_intention s i)) rest"

text \<open>
  What one step takes from outside: the agents the model knows, the clock readings
  for an acknowledgement, the positions of the vehicles, the inbox, the step counter
  of the model and the two random draws.
\<close>

record StepInput =
  si_known :: "string \<Rightarrow> bool"
  si_ts :: real
  si_mid :: string
  si_vehicles :: "position list"
  si_inbox :: "FIPAMessage list"
  si_current_step :: int
  si_r1 :: real
  si_r2 :: real

text \<open>
  \<open>BDIAgent.step\<close> for an intersection: perceive, deliberate, execute the
  intentions, advance the clock. An exception in \<open>perceive\<close> or \<open>deliberate\<close> is not
  caught and ends the step. The agent is active: \<open>active\<close> is set to \<open>True\<close> when it
  is created and only a vehicle ever clears it.
\<close>

definition step ::
  "(real \<Rightarrow> real \<Rightarrow> real) \<Rightarrow> Model \<Rightarrow> StepInput \<Rightarrow> IntersectionAgent \<Rightarrow>
   py_error + IntersectionAgent" where
  "step fadd m inp s =
     (case perceive (si_known inp) (si_ts inp) (si_mid inp) (si_vehicles inp) (si_inbox inp) s of
        Inl e \<Rightarrow> Inl e
      | Inr s1 \<Rightarrow>
          (case deliberate fadd m (si_current_step inp) (si_r1 inp) (si_r2 inp) s1 of
             Inl e \<Rightarrow> Inl e
           | Inr (intentions, s2) \<Rightarrow>
               (let s3 = execute_intentions s2 intentions
                in Inr (s3\<lparr>ia_current_time :=
                             fadd (ia_current_time s3)
                               (case time_step m of None \<Rightarrow> 1 | Some dt \<Rightarrow> dt)\<rparr>))))"

text \<open>
  The same step with every state the agent passes through on the way: the state
  after each message of the inbox and after each intention. The exception, if one ends
  the step, comes with the states passed before it.
\<close>

fun process_messages_states ::
  "(string \<Rightarrow> bool) \<Rightarrow> real \<Rightarrow> string \<Rightarrow> IntersectionAgent \<Rightarrow> FIPAMessage list \<Rightarrow>
   IntersectionAgent list \<times> py_error option" where
  "process_messages_states known ts mid s [] = ([], None)"
| "process_messages_states known ts mid s (message # rest) =
     (case intersection_handle_message known ts mid s message of
        Inl e \<Rightarrow> ([], Some e)
      | Inr s' \<Rightarrow>
          (case process_messages_states known ts mid s' rest of
             (states, err) \<Rightarrow> (s' # states, err)))"

fun execute_intentions_states :: "IntersectionAgent \<Rightarrow> IntentionType list \<Rightarrow> IntersectionAgent list" where
  "execute_intentions_states s [] = []"
| "execute_intentions_states s (i # rest) =
     snd (execute_intention s i) # execute_intentions_states (snd (execute_intention s i)) rest"

definition step_states ::
  "(real \<Rightarrow> real \<Rightarrow> real) \<Rightarrow> Model \<Rightarrow> StepInput \<Rightarrow> IntersectionAgent \<Rightarrow>
   IntersectionAgent list \<times> py_error option" where
  "step_states fadd m inp s =
     (case perceive_update (si_vehicles inp) s of
        Inl e \<Rightarrow> ([s], Some e)
      | Inr s0 \<Rightarrow>
          (case process_messages_states (si_known inp) (si_ts inp) (si_mid inp) s0 (si_inbox inp) of
             (after_messages, Some e) \<Rightarrow> (s # s0 # after_messages, Some e)
           | (after_messages, None) \<Rightarrow>
               (case deliberate fadd m (si_current_step inp) (si_r1 inp) (si_r2 inp)
                       (last (s0 # after_messages)) of
                  Inl e \<Rightarrow> (s # s0 # after_messages, Some e)
                | Inr (intentions, s2) \<Rightarrow>
                    (let after_intentions = execute_intentions_states s2 intentions;
                         s3 = last (s2 # after_intentions)
                     in (s # s0 # after_messages @ s2 # after_intentions @
                           [s3\<lparr>ia_current_time :=
                                 fadd (ia_current_time s3)
                                   (case time_step m of None \<Rightarrow> 1 | Some dt \<Rightarrow> dt)\<rparr>],
                         None)))))"





section \<open>Predicates used in the proofs about the road network\<close>

definition has_position :: "RoadNetwork \<Rightarrow> string \<Rightarrow> position \<Rightarrow> bool" where
  "has_position net x p = (case nodes net x of None \<Rightarrow> False | Some n \<Rightarrow> node_position n = p)"

definition blocked_until :: "RoadNetwork \<Rightarrow> string \<Rightarrow> string \<Rightarrow> real \<Rightarrow> bool" where
  "blocked_until net u v e =
     (case temporary_blockages net of None \<Rightarrow> False | Some bs \<Rightarrow> (u, v, e) \<in> set bs)"

definition joined_by :: "RoadNetwork \<Rightarrow> string \<Rightarrow> string \<Rightarrow> real \<Rightarrow> bool" where
  "joined_by net u v d = (edge_weight net u v = Some d \<and> edge_weight net v u = Some d)"

section \<open>Verified properties\<close>

subsection \<open>Messages and mailboxes\<close>

text \<open>
  Claim C7. For every message \<open>M\<close> and every reply \<open>R\<close> made by
  \<open>M.create_reply(performative, content)\<close>: the sender of \<open>R\<close> is the receiver of
  \<open>M\<close>, the receiver of \<open>R\<close> is the sender of \<open>M\<close>, \<open>R.reply_to\<close> is
  \<open>M.message_id\<close>, \<open>R\<close> carries the conversation id and the protocol of \<open>M\<close>, and
  \<open>M\<close> is the same after the call.
\<close>

theorem create_reply_identity:
  "case create_reply M perf cont ts mid of
     (M', R) \<Rightarrow>
       sender R = receiver M \<and> receiver R = sender M \<and>
       reply_to R = Some (message_id M) \<and>
       conversation_id R = conversation_id M \<and> protocol R = protocol M \<and>
       M' = M"
  by (simp add: create_reply_def FIPAMessage_new_def post_init_def)

lemma add_to_inbox_admits:
  assumes "1 \<le> max_size q" and "int (length (inbox q)) \<le> max_size q"
  shows "add_to_inbox q m =
           Inr (q\<lparr>inbox := (if int (length (inbox q)) < max_size q
                               then inbox q else tl (inbox q)) @ [m]\<rparr>)"
  using assms by (cases "inbox q") (auto simp: add_to_inbox_def)

lemma add_all_to_inbox_bounded:
  "1 \<le> max_size q \<Longrightarrow> int (length (inbox q)) \<le> max_size q \<Longrightarrow>
   \<exists>q'. add_all_to_inbox q ms = Inr q' \<and>
        int (length (inbox q')) \<le> max_size q' \<and> max_size q' = max_size q \<and>
        (ms \<noteq> [] \<longrightarrow> last (inbox q') = last ms)"
proof (induction ms arbitrary: q)
  case Nil
  then show ?case by simp
next
  case (Cons m ms)
  let ?q1 = "q\<lparr>inbox := (if int (length (inbox q)) < max_size q
                             then inbox q else tl (inbox q)) @ [m]\<rparr>"
  have step: "add_to_inbox q m = Inr ?q1"
    using Cons.prems by (rule add_to_inbox_admits)
  have len: "int (length (inbox ?q1)) \<le> max_size ?q1"
    using Cons.prems by auto
  have mx: "1 \<le> max_size ?q1"
    using Cons.prems by simp
  from Cons.IH[OF mx len] obtain q' where q':
    "add_all_to_inbox ?q1 ms = Inr q'"
    "int (length (inbox q')) \<le> max_size q'"
    "max_size q' = max_size ?q1"
    "ms \<noteq> [] \<longrightarrow> last (inbox q') = last ms"
    by blast
  have "ms = [] \<Longrightarrow> q' = ?q1"
    using q'(1) by simp
  then have "last (inbox q') = last (m # ms)"
    using q'(4) by (cases ms) auto
  then show ?case
    using step q' by auto
qed

text \<open>
  Claim C6, as stated, fails for a mailbox of capacity 0: the inbox is empty and not
  below the capacity, so \<open>add_to_inbox\<close> pops from the empty list and raises; the message
  is not admitted.
\<close>

theorem add_to_inbox_capacity_zero_raises:
  "add_to_inbox (MessageQueue_init 0)
     (FIPAMessage_new ''a'' ''b'' ''inform'' [] None None None None 0 ''msg_0'')
   = Inl IndexError"
  by (simp add: add_to_inbox_def MessageQueue_init_def)

text \<open>
  Claim C6, amended. For every mailbox whose capacity \<open>max_size\<close> is at least 1 and
  whose inbox holds at most \<open>max_size\<close> messages (the empty inbox of a new mailbox
  does), every call of \<open>add_to_inbox\<close> returns normally: below the capacity the message
  is appended, at the capacity the first entry is dropped and the message is appended.
  After every sequence of such calls the inbox holds at most \<open>max_size\<close> messages and
  ends with the message added last.
\<close>

theorem add_to_inbox_bound:
  assumes "1 \<le> max_size q" and "int (length (inbox q)) \<le> max_size q"
  shows "add_to_inbox q m =
           Inr (q\<lparr>inbox := (if int (length (inbox q)) < max_size q
                               then inbox q else tl (inbox q)) @ [m]\<rparr>)
         \<and> (\<exists>q'. add_all_to_inbox q ms = Inr q' \<and>
                int (length (inbox q')) \<le> max_size q' \<and> max_size q' = max_size q \<and>
                (ms \<noteq> [] \<longrightarrow> last (inbox q') = last ms))"
  using add_to_inbox_admits[OF assms] add_all_to_inbox_bounded[OF assms] by blast

theorem add_to_inbox_bound_witness:
  "add_to_inbox (MessageQueue_init 1)
     (FIPAMessage_new ''a'' ''b'' ''inform'' [] None None None None 0 ''msg_0'')
   = Inr \<lparr>inbox = [FIPAMessage_new ''a'' ''b'' ''inform'' [] None None None None 0 ''msg_0''],
          outbox = [], max_size = 1, message_count = 0\<rparr>
   \<and> (\<exists>q'. add_all_to_inbox (MessageQueue_init 1)
              [FIPAMessage_new ''a'' ''b'' ''inform'' [] None None None None 0 ''msg_0'',
               FIPAMessage_new ''b'' ''a'' ''agree'' [] None None None None 1 ''msg_1'']
            = Inr q' \<and> int (length (inbox q')) \<le> 1 \<and>
            last (inbox q') =
              FIPAMessage_new ''b'' ''a'' ''agree'' [] None None None None 1 ''msg_1'')"
  using add_to_inbox_bound[of "MessageQueue_init 1"
      "FIPAMessage_new ''a'' ''b'' ''inform'' [] None None None None 0 ''msg_0''"
      "[FIPAMessage_new ''a'' ''b'' ''inform'' [] None None None None 0 ''msg_0'',
        FIPAMessage_new ''b'' ''a'' ''agree'' [] None None None None 1 ''msg_1'']"]
  by (simp add: MessageQueue_init_def add_to_inbox_def)

subsection \<open>Road network: blockages and the A* heuristic\<close>

lemma euclidean_distance_commute: "euclidean_distance p q = euclidean_distance q p"
  by (simp add: euclidean_distance_def power2_commute)

lemma add_edge_has_position:
  "has_position net x p \<Longrightarrow> has_position (snd (add_edge net a b w)) x p"
  by (auto simp: has_position_def add_edge_def add_neighbor_def Let_def split: option.splits)

lemma remove_edge_has_position:
  "has_position net x p \<Longrightarrow> has_position (remove_edge net a b) x p"
  by (auto simp: has_position_def remove_edge_def Let_def split: option.splits)

lemma add_edge_joins:
  "has_position net u pu \<Longrightarrow> has_position net v pv \<Longrightarrow>
   joined_by (snd (add_edge net u v None)) u v (euclidean_distance pu pv)"
  by (auto simp: has_position_def joined_by_def edge_weight_def add_edge_def add_neighbor_def
        Let_def split: option.splits)

lemma add_edge_other:
  "(a, b) \<noteq> (x, y) \<Longrightarrow> (b, a) \<noteq> (x, y) \<Longrightarrow>
   edge_weight (snd (add_edge net a b w)) x y = edge_weight net x y"
  by (auto simp: edge_weight_def add_edge_def add_neighbor_def Let_def split: option.splits)

lemma add_edge_keeps_joined:
  assumes "has_position net u pu" and "has_position net v pv"
    and "joined_by net u v (euclidean_distance pu pv)"
  shows "joined_by (snd (add_edge net a b None)) u v (euclidean_distance pu pv)"
proof -
  consider "(a, b) = (u, v)" | "(a, b) = (v, u)" | "(a, b) \<noteq> (u, v)" "(a, b) \<noteq> (v, u)"
    by blast
  then show ?thesis
  proof cases
    case 1
    then show ?thesis
      using add_edge_joins[OF assms(1,2)] by simp
  next
    case 2
    then show ?thesis
      using add_edge_joins[OF assms(2,1)]
      by (simp add: joined_by_def euclidean_distance_commute)
  next
    case 3
    then have "edge_weight (snd (add_edge net a b None)) u v = edge_weight net u v"
      and "edge_weight (snd (add_edge net a b None)) v u = edge_weight net v u"
      by (auto intro!: add_edge_other)
    then show ?thesis
      using assms(3) by (simp add: joined_by_def)
  qed
qed

lemma restore_loop_has_position:
  "has_position net x p \<Longrightarrow> has_position (fst (restore_loop net t bs)) x p"
  by (induction net t bs rule: restore_loop.induct)
     (auto simp: add_edge_has_position split: prod.splits)

lemma restore_loop_keeps_joined:
  "has_position net u pu \<Longrightarrow> has_position net v pv \<Longrightarrow>
   joined_by net u v (euclidean_distance pu pv) \<Longrightarrow>
   joined_by (fst (restore_loop net t bs)) u v (euclidean_distance pu pv)"
  by (induction net t bs rule: restore_loop.induct)
     (auto simp: add_edge_has_position add_edge_keeps_joined split: prod.splits)

lemma restore_loop_joins:
  "has_position net u pu \<Longrightarrow> has_position net v pv \<Longrightarrow>
   (u, v, e) \<in> set bs \<Longrightarrow> e \<le> t \<Longrightarrow>
   joined_by (fst (restore_loop net t bs)) u v (euclidean_distance pu pv)"
proof (induction net t bs rule: restore_loop.induct)
  case (1 net t)
  then show ?case by simp
next
  case (2 net t a b x rest)
  show ?case
  proof (cases "(a, b, x) = (u, v, e)")
    case True
    then show ?thesis
      using 2 restore_loop_keeps_joined[of "snd (add_edge net u v None)" u pu v pv t rest]
      by (simp add: add_edge_has_position add_edge_joins)
  next
    case False
    then have "(u, v, e) \<in> set rest"
      using 2 by auto
    then show ?thesis
      using 2 by (auto simp: add_edge_has_position split: prod.splits)
  qed
qed

lemma sqrt_25: "sqrt (25::real) = 5"
  by (rule real_sqrt_unique) simp_all

lemma sqrt_144000000: "sqrt (144000000::real) = 12000"
  by (rule real_sqrt_unique) simp_all

lemma restore_loop_keeps_pending:
  "(u, v, e) \<in> set bs \<Longrightarrow> t < e \<Longrightarrow> (u, v, e) \<in> set (snd (restore_loop net t bs))"
  by (induction net t bs rule: restore_loop.induct) (auto split: prod.splits)

lemma restore_keeps_pending:
  "blocked_until net u v e \<Longrightarrow> t < e \<Longrightarrow> blocked_until (restore_expired_blockages net t) u v e"
proof -
  assume b: "blocked_until net u v e" and t: "t < e"
  from b obtain bs where bs: "temporary_blockages net = Some bs" "(u, v, e) \<in> set bs"
    by (auto simp: blocked_until_def split: option.splits)
  obtain net' sb where r: "restore_loop net t bs = (net', sb)"
    by (cases "restore_loop net t bs")
  have "(u, v, e) \<in> set sb"
    using restore_loop_keeps_pending[OF bs(2) t, of net] r by simp
  then show ?thesis
    using bs(1) r by (simp add: blocked_until_def restore_expired_blockages_def)
qed

lemma restore_has_position:
  "has_position net x p \<Longrightarrow> has_position (restore_expired_blockages net t) x p"
proof (cases "temporary_blockages net")
  case None
  assume "has_position net x p"
  then show ?thesis using None by (simp add: restore_expired_blockages_def)
next
  case (Some bs)
  assume h: "has_position net x p"
  obtain net' sb where r: "restore_loop net t bs = (net', sb)"
    by (cases "restore_loop net t bs")
  have "has_position net' x p"
    using restore_loop_has_position[OF h, of t bs] r by simp
  then show ?thesis
    using Some r by (simp add: restore_expired_blockages_def has_position_def)
qed

lemma poll_keeps:
  "blocked_until net u v e \<Longrightarrow> has_position net u pu \<Longrightarrow> has_position net v pv \<Longrightarrow>
   \<forall>t \<in> set polls. t < e \<Longrightarrow>
   blocked_until (poll_blockages net polls) u v e \<and> has_position (poll_blockages net polls) u pu
   \<and> has_position (poll_blockages net polls) v pv"
  unfolding poll_blockages_def
  by (induction polls arbitrary: net) (auto simp: restore_keeps_pending restore_has_position)

lemma restore_joins:
  assumes "blocked_until net u v e" "has_position net u pu" "has_position net v pv" "e \<le> t"
  shows "joined_by (restore_expired_blockages net t) u v (euclidean_distance pu pv)"
proof -
  from assms(1) obtain bs where bs: "temporary_blockages net = Some bs" "(u, v, e) \<in> set bs"
    by (auto simp: blocked_until_def split: option.splits)
  have "joined_by (fst (restore_loop net t bs)) u v (euclidean_distance pu pv)"
    using restore_loop_joins[OF assms(2,3) bs(2) assms(4)] .
  then show ?thesis using bs(1)
    by (auto simp: restore_expired_blockages_def joined_by_def edge_weight_def split: prod.splits)
qed

text \<open>
  Claim C10. For every road network with nodes \<open>u\<close> and \<open>v\<close> joined by an edge of any
  weight \<open>w\<close>: \<open>add_temporary_blockage(u, v, expiry)\<close> removes the edge, and after any
  polls of \<open>restore_expired_blockages\<close> before the expiry, a later
  \<open>restore_expired_blockages(now)\<close> with \<open>now \<ge> expiry\<close> puts the edge back with the
  Euclidean distance of the positions of \<open>u\<close> and \<open>v\<close> as its weight, in both
  directions, whatever \<open>w\<close> was.
\<close>

theorem restore_expired_blockages_euclidean:
  assumes "nodes net u = Some nu" and "nodes net v = Some nv"
    and "edge_weight net u v = Some w"
    and "\<forall>t \<in> set polls. t < expiry" and "expiry \<le> now"
  shows "edge_weight (add_temporary_blockage net u v expiry) u v = None \<and>
         edge_weight (restore_expired_blockages
                        (poll_blockages (add_temporary_blockage net u v expiry) polls) now) u v
           = Some (euclidean_distance (node_position nu) (node_position nv)) \<and>
         edge_weight (restore_expired_blockages
                        (poll_blockages (add_temporary_blockage net u v expiry) polls) now) v u
           = Some (euclidean_distance (node_position nu) (node_position nv))"
proof -
  let ?b = "add_temporary_blockage net u v expiry"
  let ?d = "euclidean_distance (node_position nu) (node_position nv)"
  have pu: "has_position ?b u (node_position nu)"
    using assms(1) remove_edge_has_position[of net u "node_position nu" u v]
    by (simp add: add_temporary_blockage_def Let_def has_position_def)
  have pv: "has_position ?b v (node_position nv)"
    using assms(2) remove_edge_has_position[of net v "node_position nv" u v]
    by (simp add: add_temporary_blockage_def Let_def has_position_def)
  have bl: "blocked_until ?b u v expiry"
    by (simp add: blocked_until_def add_temporary_blockage_def Let_def)
  have gone: "edge_weight ?b u v = None"
    using assms(1,2)
    by (auto simp: add_temporary_blockage_def Let_def edge_weight_def remove_edge_def
          split: option.splits)
  from poll_keeps[OF bl pu pv assms(4)]
  have "joined_by (restore_expired_blockages (poll_blockages ?b polls) now) u v ?d"
    using restore_joins assms(5) by blast
  then show ?thesis
    using gone by (simp add: joined_by_def)
qed

theorem restore_expired_blockages_euclidean_witness:
  "edge_weight \<lparr>nodes = [''a'' \<mapsto> \<lparr>node_position = (0, 0), node_id = ''a'', neighbors = [''b'' \<mapsto> 7]\<rparr>,
               ''b'' \<mapsto> \<lparr>node_position = (3, 4), node_id = ''b'', neighbors = [''a'' \<mapsto> 7]\<rparr>],
      graph = [(''a'', ''b'') \<mapsto> 7, (''b'', ''a'') \<mapsto> 7],
      temporary_blockages = None\<rparr> ''a'' ''b'' = Some 7 \<and>
   (5::real) < 10 \<and> (9::real) < 10 \<and> (10::real) \<le> 12 \<and>
   edge_weight (add_temporary_blockage \<lparr>nodes = [''a'' \<mapsto> \<lparr>node_position = (0, 0), node_id = ''a'', neighbors = [''b'' \<mapsto> 7]\<rparr>,
               ''b'' \<mapsto> \<lparr>node_position = (3, 4), node_id = ''b'', neighbors = [''a'' \<mapsto> 7]\<rparr>],
      graph = [(''a'', ''b'') \<mapsto> 7, (''b'', ''a'') \<mapsto> 7],
      temporary_blockages = None\<rparr> ''a'' ''b'' 10) ''a'' ''b'' = None \<and>
   edge_weight
     (restore_expired_blockages
        (poll_blockages (add_temporary_blockage \<lparr>nodes = [''a'' \<mapsto> \<lparr>node_position = (0, 0), node_id = ''a'', neighbors = [''b'' \<mapsto> 7]\<rparr>,
               ''b'' \<mapsto> \<lparr>node_position = (3, 4), node_id = ''b'', neighbors = [''a'' \<mapsto> 7]\<rparr>],
      graph = [(''a'', ''b'') \<mapsto> 7, (''b'', ''a'') \<mapsto> 7],
      temporary_blockages = None\<rparr> ''a'' ''b'' 10) [5, 9]) 12) ''a'' ''b''
     = Some 5"
  using restore_expired_blockages_euclidean[of
      "\<lparr>nodes = [''a'' \<mapsto> \<lparr>node_position = (0, 0), node_id = ''a'', neighbors = [''b'' \<mapsto> 7]\<rparr>,
               ''b'' \<mapsto> \<lparr>node_position = (3, 4), node_id = ''b'', neighbors = [''a'' \<mapsto> 7]\<rparr>],
      graph = [(''a'', ''b'') \<mapsto> 7, (''b'', ''a'') \<mapsto> 7],
      temporary_blockages = None\<rparr>"
      "''a''" "\<lparr>node_position = (0, 0), node_id = ''a'', neighbors = [''b'' \<mapsto> 7]\<rparr>"
      "''b''" "\<lparr>node_position = (3, 4), node_id = ''b'', neighbors = [''a'' \<mapsto> 7]\<rparr>"
      7 "[5, 9]" 10 12]
  by (simp add: edge_weight_def euclidean_distance_def sqrt_25)

text \<open>
  Claim C4 says that the heuristic is the Euclidean distance to the goal times 1.30 up
  to 5 km, 1.15 between 5 and 10 km and 1.10 beyond 10 km. In the code the test
  \<open>> 5000\<close> comes first and the branch \<open>> 10000\<close> is never taken: for a node 12 km from
  the goal the heuristic is \<open>12000 * 1.15 = 13800\<close>, not \<open>12000 * 1.10 = 13200\<close>.
\<close>

theorem heuristic_beyond_10km:
  "heuristic
     \<lparr>nodes = [''a'' \<mapsto> \<lparr>node_position = (0, 0), node_id = ''a'', neighbors = Map.empty\<rparr>,
               ''g'' \<mapsto> \<lparr>node_position = (12000, 0), node_id = ''g'', neighbors = Map.empty\<rparr>],
      graph = Map.empty, temporary_blockages = None\<rparr> ''g'' ''a'' = Inr 13800"
  by (simp add: heuristic_def euclidean_distance_def osm_correction_factor_def sqrt_144000000)

subsection \<open>Vehicle agent: rerouting and inbound messages\<close>

text \<open>
  Claim C9. For every vehicle executing a \<open>ChangeRoute\<close> intention: when the router
  returns no route (\<open>None\<close>), the intention returns failure, and \<open>current_route\<close>,
  \<open>current_waypoint_index\<close> and \<open>route_changes\<close> are what they were, so that the
  vehicle keeps its previous route.
\<close>

theorem change_route_no_route_keeps_route:
  assumes "calc (veh_position v) (destination v) = None"
  shows "case execute_intention_CHANGE_ROUTE (Some calc) v of
           (ok, v') \<Rightarrow>
             \<not> ok \<and> current_route v' = current_route v \<and>
             current_waypoint_index v' = current_waypoint_index v \<and>
             route_changes v' = route_changes v"
  using assms
  by (auto simp: execute_intention_CHANGE_ROUTE_def recalculate_route_def Let_def
        split: cval.splits sum.splits)

theorem change_route_no_route_keeps_route_witness:
  "(\<lambda>p q. None :: position list option)
      (veh_position ((VehicleAgent_init ''vehicle_1'' (0, 0) (100, 100) ''standard'')
                        \<lparr>current_route := [(0, 0), (100, 0), (100, 100)], route_changes := 2\<rparr>))
      (destination ((VehicleAgent_init ''vehicle_1'' (0, 0) (100, 100) ''standard'')
                        \<lparr>current_route := [(0, 0), (100, 0), (100, 100)], route_changes := 2\<rparr>))
     = None \<and>
   (case execute_intention_CHANGE_ROUTE (Some (\<lambda>p q. None))
           ((VehicleAgent_init ''vehicle_1'' (0, 0) (100, 100) ''standard'')
              \<lparr>current_route := [(0, 0), (100, 0), (100, 100)], route_changes := 2\<rparr>) of
      (ok, v') \<Rightarrow>
        \<not> ok \<and> current_route v' = [(0, 0), (100, 0), (100, 100)] \<and>
        current_waypoint_index v' = 0 \<and> route_changes v' = 2)"
  using change_route_no_route_keeps_route[of "\<lambda>p q. None"
      "(VehicleAgent_init ''vehicle_1'' (0, 0) (100, 100) ''standard'')
         \<lparr>current_route := [(0, 0), (100, 0), (100, 100)], route_changes := 2\<rparr>"]
  by (simp add: VehicleAgent_init_def split: prod.splits)

lemma lower_char_not_upper_I: "lower_char c \<noteq> CHR ''I''"
  by (simp add: lower_char_def split: option.splits if_splits)

lemma lower_not_INFORM: "lower s \<noteq> ''INFORM''"
proof
  assume "lower s = ''INFORM''"
  then obtain c cs where "s = c # cs" and "lower_char c = CHR ''I''"
    by (cases s) (auto simp: lower_def)
  then show False
    using lower_char_not_upper_I by blast
qed

lemma lower_INFORM: "lower ''INFORM'' = ''inform''"
  by (simp add: lower_def lower_char_def)

lemma post_init_not_INFORM: "performative (post_init m) \<noteq> ''INFORM''"
proof (cases "performative m = ''INFORM''")
  case True
  then show ?thesis
    by (simp add: post_init_def lower_INFORM Performative_values_def)
next
  case False
  then show ?thesis
    by (simp add: post_init_def lower_not_INFORM)
qed

text \<open>
  No message built by the \<open>FIPAMessage\<close> constructor has the performative \<open>INFORM\<close> in
  upper case, and \<open>VehicleAgent.handle_message\<close> acts on no other: a vehicle ignores
  every constructed message.
\<close>

lemma vehicle_ignores_constructed_messages:
  "vehicle_handle_message calc v (FIPAMessage_new a b p c d e f g h i) = Inr v"
  by (simp add: vehicle_handle_message_def FIPAMessage_new_def post_init_not_INFORM)

text \<open>
  Claim C3 says that a vehicle that receives an \<open>inform\<close> about congestion or an
  incident updates its congestion belief and, at a level of at least 0.7 or for the
  reason \<open>incident\<close>, reroutes within the tick. On the message the incident scenario
  sends to vehicles (performative \<open>inform\<close>, level 1.0, reason \<open>incident\<close>) the code does
  nothing: the vehicle is unchanged, with no congestion belief and no new route.
\<close>

theorem vehicle_ignores_incident_inform:
  "vehicle_handle_message (Some (\<lambda>p q. Some [p, q]))
     ((VehicleAgent_init ''vehicle_1'' (0, 0) (100, 100) ''standard'')
        \<lparr>current_route := [(0, 0), (100, 0), (100, 100)]\<rparr>)
     (FIPAMessage_new ''scenario_manager'' ''vehicle_1'' ''inform''
        [(''type'', Str ''congestion''), (''congestion_level'', Num 1),
         (''location'', Pos 50 0), (''reason'', Str ''incident''),
         (''blocked_road'', Str ''Boulevard'')]
        None None None None 30 ''msg_30000'')
   = Inr ((VehicleAgent_init ''vehicle_1'' (0, 0) (100, 100) ''standard'')
            \<lparr>current_route := [(0, 0), (100, 0), (100, 100)]\<rparr>)
   \<and> veh_beliefs ((VehicleAgent_init ''vehicle_1'' (0, 0) (100, 100) ''standard'')
            \<lparr>current_route := [(0, 0), (100, 0), (100, 100)]\<rparr>) CONGESTION = None"
  by (simp add: vehicle_ignores_constructed_messages VehicleAgent_init_def update_belief_def)

subsection \<open>Crisis manager: Contract-Net arbitration\<close>

text \<open>
  Claim C5 says that the accept-proposal carries the priority direction chosen for
  the congested intersection. For an intersection \<open>C\<close> whose longest queue is in the
  east, the call for proposals names the direction \<open>east\<close>; after the proposals of its
  neighbours \<open>X\<close> (availability 0.9) and \<open>Y\<close> (availability 0.5), \<open>X\<close> receives the one
  accept-proposal, \<open>Y\<close> a reject-proposal and the stored proposals are deleted, but
  the accept-proposal carries the direction \<open>north\<close>, which is written into the code.
\<close>

theorem cnp_accept_carries_north:
  "map_of (content (cnp_call_for_proposals (CrisisManagerAgent_init ''crisis'')
             \<lparr>inboxes = [''X'' \<mapsto> [], ''Y'' \<mapsto> []],
              world_queue_lengths = [''C'' \<mapsto> [(NORTH, 0), (SOUTH, 0), (EAST, 50), (WEST, 0)]],
              world_neighbors = [''C'' \<mapsto> [''X'', ''Y'']]\<rparr>
             ''C'' (Num 50) 1 ''msg_1'')) ''direction'' = Some (Str ''east'') \<and>
   (case evaluate_cnp_proposal (CrisisManagerAgent_init ''crisis'')
           \<lparr>inboxes = [''X'' \<mapsto> [], ''Y'' \<mapsto> []],
            world_queue_lengths = [''C'' \<mapsto> [(NORTH, 0), (SOUTH, 0), (EAST, 50), (WEST, 0)]],
            world_neighbors = [''C'' \<mapsto> [''X'', ''Y'']]\<rparr>
           (\<lambda>k. (4, ''msg_4''))
           (FIPAMessage_new ''X'' ''crisis'' ''propose''
              [(''task'', Str ''priority_delegation''), (''availability'', Num 0.9),
               (''current_load'', Num 4)]
              None (Some ''fipa-contract-net'') None (Some ''msg_1'') 2 ''msg_2'') of
      Inl e \<Rightarrow> False
    | Inr (cm1, w1) \<Rightarrow>
        (case evaluate_cnp_proposal cm1 w1 (\<lambda>k. (5, ''msg_5''))
                (FIPAMessage_new ''Y'' ''crisis'' ''propose''
                   [(''task'', Str ''priority_delegation''), (''availability'', Num 0.5),
                    (''current_load'', Num 20)]
                   None (Some ''fipa-contract-net'') None (Some ''msg_1'') 3 ''msg_3'') of
           Inl e \<Rightarrow> False
         | Inr (cm2, w2) \<Rightarrow>
             map (\<lambda>m. (performative m, map_of (content m) ''priority_direction''))
                 (case inboxes w2 ''X'' of None \<Rightarrow> [] | Some box \<Rightarrow> box)
               = [(''accept-proposal'', Some (Str ''north''))] \<and>
             map performative (case inboxes w2 ''Y'' of None \<Rightarrow> [] | Some box \<Rightarrow> box)
               = [''reject-proposal''] \<and>
             cnp_proposals cm2 ''default'' = None))"
  by (simp add: cnp_call_for_proposals_def contract_net_protocol_def priority_direction_of_def
        evaluate_cnp_proposal_def CrisisManagerAgent_init_def FIPAMessage_new_def post_init_def
        dict_get_def deliver_def Let_def lower_def lower_char_def Performative_values_def)

subsection \<open>Intersection agent: the phase invariant\<close>


lemma Direction_cases4: "d = NORTH \<or> d = SOUTH \<or> d = EAST \<or> d = WEST"
  by (cases d) auto

lemma initialize_traffic_lights_lights:
  "fst (initialize_traffic_lights dflt ds (l, t, g)) d =
     (if d \<in> set ds then Some (if d \<in> {NORTH, SOUTH} then GREEN else RED) else l d)"
  by (induction ds arbitrary: l t g) auto

lemma init_lights:
  "traffic_lights (IntersectionAgent_init uid pos dirs) d =
     (if d \<in> set (directions (IntersectionAgent_init uid pos dirs))
      then Some (if d \<in> {NORTH, SOUTH} then GREEN else RED) else None)"
  by (simp add: IntersectionAgent_init_def Let_def initialize_traffic_lights_lights)

lemma set_red_lights:
  "traffic_lights (set_red ds s) d = (if d \<in> set ds then Some RED else traffic_lights s d)"
  by (induction ds arbitrary: s) auto

lemma set_red_directions: "directions (set_red ds s) = directions s"
  by (induction ds arbitrary: s) auto

lemma set_green_lights:
  "traffic_lights (set_green p ds s) d = (if d \<in> set ds then Some GREEN else traffic_lights s d)"
  by (induction ds arbitrary: s) auto

lemma set_green_directions: "directions (set_green p ds s) = directions s"
  by (induction ds arbitrary: s) auto

lemma force_lights_lights:
  "traffic_lights (force_lights c ds s) d =
     (if d \<in> set ds \<and> traffic_lights s d \<noteq> None then Some c else traffic_lights s d)"
  by (induction ds arbitrary: s) auto

lemma force_lights_directions: "directions (force_lights c ds s) = directions s"
  by (induction ds arbitrary: s) auto

lemma change_lights:
  assumes "change_traffic_light_phase s = Inr (True, s')"
  shows "directions s' = directions s \<and>
     (\<exists>p. \<forall>d. traffic_lights s' d =
        (if d \<in> set (directions s) then Some (if (d \<in> {NORTH, SOUTH}) = (p = ''NS'') then GREEN else RED) else traffic_lights s d))"
proof -
  define wave where "wave = (case green_wave_phase s of None \<Rightarrow> False
                         | Some p \<Rightarrow> p \<noteq> [] \<and> \<not> green_wave_active s)"
  define p where "p = (if wave then (case green_wave_phase s of Some p \<Rightarrow> p | None \<Rightarrow> [])
                    else if get_current_phase s = ''NS'' then ''EW'' else ''NS'')"
  define s1 where "s1 = (if wave then s\<lparr>green_wave_phase := None, green_wave_offset := 0\<rparr> else s)"
  define s3 where "s3 = set_green p (if p = ''NS'' then ns_directions s1 else ew_directions s1)
              (set_red (if p = ''NS'' then ew_directions s1 else ns_directions s1) s1)"
  have s': "s' = s3\<lparr>phase_changes := phase_changes s3 + 1\<rparr>"
    using assms unfolding change_traffic_light_phase_def Let_def wave_def[symmetric]
    unfolding p_def[symmetric] s1_def[symmetric] s3_def[symmetric]
    by (auto split: sum.splits if_splits)
  have s1: "directions s1 = directions s" "traffic_lights s1 = traffic_lights s"
    by (simp_all add: s1_def)
  have dirs: "directions s' = directions s"
    using s' s1 by (simp add: s3_def set_green_directions set_red_directions)
  have "\<forall>d. traffic_lights s' d =
        (if d \<in> set (directions s) then Some (if (d \<in> {NORTH, SOUTH}) = (p = ''NS'') then GREEN else RED) else traffic_lights s d)"
  proof
    fix d
    show "traffic_lights s' d =
        (if d \<in> set (directions s) then Some (if (d \<in> {NORTH, SOUTH}) = (p = ''NS'') then GREEN else RED) else traffic_lights s d)"
      using s1 Direction_cases4[of d]
      by (auto simp: s' s3_def set_green_lights set_red_lights ns_directions_def ew_directions_def)
  qed
  then show ?thesis using dirs by blast
qed


lemma change_unchanged:
  "change_traffic_light_phase s = Inr (False, s') \<Longrightarrow> s' = s"
  by (auto simp: change_traffic_light_phase_def Let_def split: sum.splits if_splits)

lemma force_green_lights:
  assumes "force_green s t = Inr s'"
  shows "s' = s \<or> (directions s' = directions s \<and>
     (\<exists>g. \<forall>d. traffic_lights s' d =
        (if traffic_lights s d \<noteq> None then Some (if (d \<in> {NORTH, SOUTH}) = g then GREEN else RED)
         else None)))"
proof (cases "s' = s")
  case True
  then show ?thesis by simp
next
  case False
  define g where "g = (t \<in> {NORTH, SOUTH})"
  define s2 where "s2 = force_lights RED (if g then [EAST, WEST] else [NORTH, SOUTH])
                          (force_lights GREEN (if g then [NORTH, SOUTH] else [EAST, WEST]) s)"
  have s': "s' = s2\<lparr>phase_changes := phase_changes s2 + 1\<rparr>"
    using assms False unfolding force_green_def Let_def g_def[symmetric]
    unfolding s2_def[symmetric]
    by (auto split: sum.splits if_splits bool.splits)
  have "directions s' = directions s"
    by (simp add: s' s2_def force_lights_directions)
  moreover have "\<forall>d. traffic_lights s' d =
        (if traffic_lights s d \<noteq> None then Some (if (d \<in> {NORTH, SOUTH}) = g then GREEN else RED)
         else None)"
  proof
    fix d
    show "traffic_lights s' d =
        (if traffic_lights s d \<noteq> None then Some (if (d \<in> {NORTH, SOUTH}) = g then GREEN else RED)
         else None)"
      using Direction_cases4[of d]
      by (auto simp: s' s2_def force_lights_lights)
  qed
  ultimately show ?thesis by blast
qed

lemma phase_exclusive_cong:
  "traffic_lights s' = traffic_lights s \<Longrightarrow> directions s' = directions s \<Longrightarrow>
   phase_exclusive s' = phase_exclusive s"
  by (simp add: phase_exclusive_def has_green_def group_all_def)

lemma lights_on_directions_cong:
  "traffic_lights s' = traffic_lights s \<Longrightarrow> directions s' = directions s \<Longrightarrow>
   lights_on_directions s' = lights_on_directions s"
  by (simp add: lights_on_directions_def)

lemma phase_exclusiveI:
  assumes "both_groups (directions s)"
    and "\<forall>d \<in> set (directions s). traffic_lights s d = Some (if (d \<in> {NORTH, SOUTH}) = g then GREEN else RED)"
  shows "phase_exclusive s"
proof (cases g)
  case True
  then have "has_green s [NORTH, SOUTH] \<and> group_all s [NORTH, SOUTH] GREEN \<and> group_all s [EAST, WEST] RED"
    using assms by (auto simp: has_green_def group_all_def both_groups_def)
  then show ?thesis by (simp add: phase_exclusive_def)
next
  case False
  then have "has_green s [EAST, WEST] \<and> group_all s [EAST, WEST] GREEN \<and> group_all s [NORTH, SOUTH] RED"
    using assms by (auto simp: has_green_def group_all_def both_groups_def)
  then show ?thesis by (simp add: phase_exclusive_def)
qed

lemma reachable_invariant:
  "reachable s \<Longrightarrow>
   lights_on_directions s \<and> (both_groups (directions s) \<longrightarrow> phase_exclusive s)"
proof (induction rule: reachable.induct)
  case (reach_init uid pos dirs)
  let ?s = "IntersectionAgent_init uid pos dirs"
  have l: "lights_on_directions ?s"
    by (simp add: lights_on_directions_def init_lights)
  have "phase_exclusive ?s" if "both_groups (directions ?s)"
    by (rule phase_exclusiveI[OF that, of True]) (simp add: init_lights)
  then show ?case using l by blast
next
  case (reach_other s s')
  then show ?case
    using phase_exclusive_cong[of s' s] lights_on_directions_cong[of s' s] by simp
next
  case (reach_change s ok s')
  show ?case
  proof (cases ok)
    case False
    with reach_change(2) have "s' = s" by (simp add: change_unchanged)
    then show ?thesis using reach_change.IH by simp
  next
    case True
    with reach_change(2) have c: "change_traffic_light_phase s = Inr (True, s')" by simp
    from change_lights[OF c] obtain p where dirs: "directions s' = directions s" and
      l: "\<forall>d. traffic_lights s' d =
        (if d \<in> set (directions s) then Some (if (d \<in> {NORTH, SOUTH}) = (p = ''NS'') then GREEN else RED) else traffic_lights s d)"
      by blast
    have w: "lights_on_directions s'"
      using reach_change.IH l dirs by (auto simp: lights_on_directions_def)
    have "phase_exclusive s'" if "both_groups (directions s')"
      by (rule phase_exclusiveI[OF that, of "p = ''NS''"]) (simp add: l dirs)
    then show ?thesis using w by blast
  qed
next
  case (reach_force s d s')
  from force_green_lights[OF reach_force(2)] show ?case
  proof
    assume "s' = s"
    then show ?thesis using reach_force.IH by simp
  next
    assume "directions s' = directions s \<and>
     (\<exists>g. \<forall>d. traffic_lights s' d =
        (if traffic_lights s d \<noteq> None then Some (if (d \<in> {NORTH, SOUTH}) = g then GREEN else RED)
         else None))"
    then obtain g where dirs: "directions s' = directions s" and
      l: "\<forall>d. traffic_lights s' d =
        (if traffic_lights s d \<noteq> None then Some (if (d \<in> {NORTH, SOUTH}) = g then GREEN else RED)
         else None)" by blast
    have w0: "lights_on_directions s" using reach_force.IH by simp
    have w: "lights_on_directions s'"
      using w0 l dirs by (auto simp: lights_on_directions_def)
    have "phase_exclusive s'" if "both_groups (directions s')"
    proof (rule phase_exclusiveI[OF that, of g])
      show "\<forall>d\<in>set (directions s'). traffic_lights s' d = Some (if (d \<in> {NORTH, SOUTH}) = g then GREEN else RED)"
        using w0 l dirs by (auto simp: lights_on_directions_def)
    qed
    then show ?thesis using w by blast
  qed
qed

text \<open>
  Claim C1, as stated, fails for an intersection created with the directions
  \<open>[EAST, WEST]\<close>: \<open>_initialize_traffic_lights\<close> makes both lights red, so that after
  initialization no group is green.
\<close>

theorem no_green_after_init_east_west:
  "reachable (IntersectionAgent_init ''intersection_1'' (500, 500) (Some [EAST, WEST])) \<and>
   \<not> phase_exclusive (IntersectionAgent_init ''intersection_1'' (500, 500) (Some [EAST, WEST]))"
proof
  show "reachable (IntersectionAgent_init ''intersection_1'' (500, 500) (Some [EAST, WEST]))"
    by (rule reach_init)
  show "\<not> phase_exclusive (IntersectionAgent_init ''intersection_1'' (500, 500) (Some [EAST, WEST]))"
    by (simp add: phase_exclusive_def has_green_def group_all_def
          IntersectionAgent_init_def Let_def)
qed

text \<open>
  Claim C1, amended. For every intersection agent whose directions include at least one
  of \<open>NORTH\<close>, \<open>SOUTH\<close> and at least one of \<open>EAST\<close>, \<open>WEST\<close> (the default is all
  four), in every reachable state (after initialization and after any sequence of phase
  changes by \<open>_change_traffic_light_phase\<close> or \<open>_force_green\<close>) exactly one of the two
  groups has green: all its lights are green and all lights of the other group are red.
\<close>

theorem phase_exclusive_reachable:
  assumes "reachable s" and "both_groups (directions s)"
  shows "phase_exclusive s"
  using reachable_invariant[OF assms(1)] assms(2) by blast

theorem phase_exclusive_reachable_witness:
  "reachable (snd (projr (change_traffic_light_phase (IntersectionAgent_init ''intersection_1'' (500, 500) None)))) \<and>
   both_groups (directions (snd (projr (change_traffic_light_phase (IntersectionAgent_init ''intersection_1'' (500, 500) None))))) \<and>
   phase_exclusive (snd (projr (change_traffic_light_phase (IntersectionAgent_init ''intersection_1'' (500, 500) None))))"
proof -
  obtain s1 where c: "change_traffic_light_phase (IntersectionAgent_init ''intersection_1'' (500, 500) None) = Inr (True, s1)"
    by (simp add: change_traffic_light_phase_def IntersectionAgent_init_def Let_def)
  have d: "directions s1 = [NORTH, SOUTH, EAST, WEST]"
    using change_lights[OF c] by (simp add: IntersectionAgent_init_def)
  have r: "reachable s1"
    using reach_change[OF reach_init c] .
  have b: "both_groups (directions s1)"
    by (simp add: d both_groups_def)
  show ?thesis
    using phase_exclusive_reachable[OF r b] r b c by simp
qed

subsection \<open>Intersection agent: the minimum green time\<close>


































lemma process_messages_last:
  "process_messages known ts mid s msgs =
     (case process_messages_states known ts mid s msgs of
        (states, None) \<Rightarrow> Inr (last (s # states))
      | (states, Some e) \<Rightarrow> Inl e)"
proof (induction msgs arbitrary: s)
  case Nil
  then show ?case by simp
next
  case (Cons message rest)
  show ?case
  proof (cases "intersection_handle_message known ts mid s message")
    case (Inl e)
    then show ?thesis by simp
  next
    case (Inr s')
    then show ?thesis
      using Cons.IH[of s']
      by (cases "process_messages_states known ts mid s' rest") (auto split: option.splits)
  qed
qed

lemma execute_intentions_last:
  "execute_intentions s ints = last (s # execute_intentions_states s ints)"
  by (induction ints arbitrary: s) auto

lemma step_is_last_state:
  "step fadd m inp s =
     (case step_states fadd m inp s of
        (states, None) \<Rightarrow> Inr (last states)
      | (states, Some e) \<Rightarrow> Inl e)"
proof (cases "perceive_update (si_vehicles inp) s")
  case (Inl e)
  then show ?thesis by (simp add: step_def step_states_def perceive_def)
next
  case (Inr s0)
  obtain ms err where pm:
    "process_messages_states (si_known inp) (si_ts inp) (si_mid inp) s0 (si_inbox inp) = (ms, err)"
    by (cases "process_messages_states (si_known inp) (si_ts inp) (si_mid inp) s0 (si_inbox inp)")
  show ?thesis
  proof (cases err)
    case (Some e)
    then show ?thesis
      using Inr pm by (simp add: step_def step_states_def perceive_def process_messages_last)
  next
    case None
    then show ?thesis
      using Inr pm
      by (auto simp: step_def step_states_def perceive_def process_messages_last Let_def
            execute_intentions_last split: sum.splits prod.splits)
  qed
qed





subsection \<open>Intersection agent: the Max-Pressure decision\<close>


text \<open>
  Claim C8 says that, once the green timer has reached \<open>min_green_time\<close> and with no
  green-wave lock, the Max-Pressure decision is true exactly when the other phase's
  pressure exceeds the current one's by more than 5, or the timer exceeds the green
  duration at a pressure below 2, or the timer exceeds \<open>max_green_time\<close>. For an
  intersection created with the single direction \<open>SOUTH\<close> the light of \<open>SOUTH\<close> is
  green, but \<open>_get_current_phase\<close> reads only the light of \<open>NORTH\<close> and answers
  \<open>EW\<close>, whose direction list is empty. With the green timer at \<open>min_green_time\<close>
  and empty queues none of the three conditions holds, and the code does not answer
  false: the third test indexes the empty list and raises.
\<close>

theorem max_pressure_single_direction_raises:
  "should_change_phase \<lparr>time_step = Some 1, use_q_learning = None\<rparr>
     ((IntersectionAgent_init ''intersection_1'' (500, 500) (Some [SOUTH]))
        \<lparr>light_timers := [SOUTH \<mapsto> 15]\<rparr>) 0 0 = Inl IndexError"
  by (simp add: should_change_phase_def max_pressure_decision_def current_green_timer_def
        IntersectionAgent_init_def Let_def get_current_phase_def ns_directions_def
        ew_directions_def phase_pressure_def queue_in_def estimate_downstream_queue_def)

end
